theory Spec2Isabelle
  imports Complex_Main
begin

section \<open>Python values\<close>

text \<open>
  The bridge (\<^verbatim>\<open>scripts/meshcore-bridge.py\<close>) moves JSON-like Python values
  between its standard input, the meshcore library and its standard output. A value is
  modelled by the datatype below. A dict is an association list in insertion order whose
  keys are looked up with \<open>map_of\<close>.

  The bridge does no arithmetic on floats: it only tests them for truth and compares them
  with \<open>0.0\<close>. A finite float is therefore modelled by the rational it denotes (so
  \<open>0.0\<close> and \<open>-0.0\<close>, which Python treats alike in both tests, coincide), and the
  three non-finite floats are constructors of their own.
\<close>

datatype pyfloat = Finite rat | NaN | PosInf | NegInf

datatype json =
    JNull
  | JBool bool
  | JInt int
  | JFloat pyfloat
  | JStr string
  | JArr "json list"
  | JObj "(string \<times> json) list"

text \<open>Python's truth test \<open>bool(v)\<close>.\<close>

fun truthy :: "json \<Rightarrow> bool" where
  "truthy JNull = False"
| "truthy (JBool b) = b"
| "truthy (JInt i) = (i \<noteq> 0)"
| "truthy (JFloat (Finite r)) = (r \<noteq> 0)"
| "truthy (JFloat f) = True"
| "truthy (JStr s) = (s \<noteq> [])"
| "truthy (JArr xs) = (xs \<noteq> [])"
| "truthy (JObj d) = (d \<noteq> [])"

text \<open>\<open>a or b\<close>: the first operand when it is true, else the second.\<close>

definition py_or :: "json \<Rightarrow> json \<Rightarrow> json" where
  "py_or a b = (if truthy a then a else b)"

text \<open>The comparison \<open>v == 0.0\<close>: true of the numbers zero and of \<open>False\<close>.\<close>

fun eq_zero :: "json \<Rightarrow> bool" where
  "eq_zero (JBool b) = (\<not> b)"
| "eq_zero (JInt i) = (i = 0)"
| "eq_zero (JFloat (Finite r)) = (r = 0)"
| "eq_zero v = False"

text \<open>\<open>d.get(k, dflt)\<close> on a dict.\<close>

definition dict_get :: "(string \<times> json) list \<Rightarrow> string \<Rightarrow> json \<Rightarrow> json" where
  "dict_get d k dflt = (case map_of d k of Some v \<Rightarrow> v | None \<Rightarrow> dflt)"

text \<open>
  Exceptions, each with its message \<open>str(e)\<close>. All of them are subclasses of
  \<open>Exception\<close>; the loop tells \<open>JSONDecodeError\<close> from the rest.
\<close>

datatype exn =
    JSONDecodeError string
  | UnicodeDecodeError string
  | AttributeError string
  | OtherError string

fun str_exn :: "exn \<Rightarrow> string" where
  "str_exn (JSONDecodeError m) = m"
| "str_exn (UnicodeDecodeError m) = m"
| "str_exn (AttributeError m) = m"
| "str_exn (OtherError m) = m"

fun type_name :: "json \<Rightarrow> string" where
  "type_name JNull = ''NoneType''"
| "type_name (JBool b) = ''bool''"
| "type_name (JInt i) = ''int''"
| "type_name (JFloat f) = ''float''"
| "type_name (JStr s) = ''str''"
| "type_name (JArr xs) = ''list''"
| "type_name (JObj d) = ''dict''"

text \<open>The error of \<open>v.attr\<close> on a value that has no such attribute.\<close>

definition no_attribute :: "json \<Rightarrow> string \<Rightarrow> exn" where
  "no_attribute v attr =
     AttributeError ([CHR 0x27] @ type_name v @ [CHR 0x27] @ '' object has no attribute ''
                     @ [CHR 0x27] @ attr @ [CHR 0x27])"

section \<open>The meshcore library and the runtime\<close>

text \<open>
  The meshcore library is not part of the repository. Its objects are modelled by the
  arguments they were built from, and every interaction of the bridge with it (a
  constructor, an awaited method, a read of \<open>self_info\<close> or \<open>contacts\<close>) is a
  \<open>call\<close>. Library objects are ordinary class instances, which Python's truth test
  takes as true.
\<close>

datatype conn = SerialConnection json json | TCPConnection json json

datatype mcore = MeshCore conn

datatype call =
    New_connection conn
  | New_meshcore conn
  | Connect
  | Disconnect
  | Self_info
  | Get_contacts
  | Contacts
  | Send_msg json json
  | Send_chan_msg json json
  | Send_advert
  | Send_login json json
  | Req_status_sync json json
  | Set_name json
  | Set_radio json json json json

text \<open>
  The environment the bridge runs in. \<open>reply\<close> is the library and the device behind it:
  given the history of all interactions so far, the last one being the current call, it
  raises or returns a value. The other fields are the two module-level availability flags
  and the functions of Python's standard library that the bridge calls:
  \<open>traceback.format_exc\<close>, the formatting of a value inside an f-string,
  \<open>bytes.decode('utf-8')\<close>, \<open>str.strip\<close> and \<open>json.loads\<close>.
\<close>

record env =
  MESHCORE_AVAILABLE :: bool
  TCP_AVAILABLE :: bool
  reply :: "call list \<Rightarrow> exn + json"
  format_exc :: "exn \<Rightarrow> string"
  repr :: "json \<Rightarrow> string"
  decode :: "string \<Rightarrow> exn + string"
  strip :: "string \<Rightarrow> string"
  json_loads :: "string \<Rightarrow> exn + json"

section \<open>The bridge\<close>

text \<open>
  The four fields of \<open>MeshCoreBridge\<close>, and the history of library interactions
  (\<open>calls\<close>), which is not a field of the class but the part of the outside world the
  bridge changes.
\<close>

record bridge =
  connection :: "conn option"
  meshcore :: "mcore option"
  connected :: bool
  running :: bool
  calls :: "call list"

definition init :: bridge where
  "init = \<lparr>connection = None, meshcore = None, connected = False, running = True, calls = []\<rparr>"

text \<open>One interaction with the library: it is appended to the history and answered.\<close>

definition lib_call :: "env \<Rightarrow> call \<Rightarrow> bridge \<Rightarrow> (exn + json) \<times> bridge" where
  "lib_call env c st = (reply env (calls st @ [c]), st\<lparr>calls := calls st @ [c]\<rparr>)"

text \<open>An f-string field \<open>{v}\<close>: a string is inserted as it is.\<close>

definition py_format :: "env \<Rightarrow> json \<Rightarrow> string" where
  "py_format env v = (case v of JStr s \<Rightarrow> s | _ \<Rightarrow> repr env v)"

subsection \<open>Serialization\<close>

text \<open>\<open>_serialize_self_info\<close>. Every \<open>info.get\<close> raises when \<open>info\<close> is not a dict.\<close>

definition serialize_self_info :: "json \<Rightarrow> exn + json" where
  "serialize_self_info info =
     (case info of
        JObj i \<Rightarrow>
          (let lat = py_or (dict_get i ''adv_lat'' JNull) (dict_get i ''latitude'' JNull);
               lon = py_or (dict_get i ''adv_lon'' JNull) (dict_get i ''longitude'' JNull);
               lat = (if eq_zero lat then JNull else lat);
               lon = (if eq_zero lon then JNull else lon)
           in Inr (JObj [
                (''public_key'', dict_get i ''public_key'' (JStr '''')),
                (''name'', dict_get i ''name'' (JStr '''')),
                (''adv_type'', dict_get i ''adv_type'' JNull),
                (''tx_power'', dict_get i ''tx_power'' JNull),
                (''max_tx_power'', dict_get i ''max_tx_power'' JNull),
                (''radio_freq'', dict_get i ''radio_freq'' JNull),
                (''radio_bw'', dict_get i ''radio_bw'' JNull),
                (''radio_sf'', dict_get i ''radio_sf'' JNull),
                (''radio_cr'', dict_get i ''radio_cr'' JNull),
                (''latitude'', lat),
                (''longitude'', lon)]))
      | _ \<Rightarrow> Inl (no_attribute info ''get''))"

text \<open>The body of the loop of \<open>cmd_get_contacts\<close>: the record of one contact.\<close>

definition contact_record :: "string \<Rightarrow> json \<Rightarrow> exn + json" where
  "contact_record key contact =
     (case contact of
        JObj c \<Rightarrow>
          (let lat = py_or (py_or (dict_get c ''adv_lat'' JNull) (dict_get c ''latitude'' JNull))
                           (dict_get c ''lat'' JNull);
               lon = py_or (py_or (dict_get c ''adv_lon'' JNull) (dict_get c ''longitude'' JNull))
                           (dict_get c ''lon'' JNull);
               lat = (if eq_zero lat then JNull else lat);
               lon = (if eq_zero lon then JNull else lon)
           in Inr (JObj [
                (''public_key'', JStr key),
                (''adv_name'', dict_get c ''adv_name'' (JStr '''')),
                (''name'', dict_get c ''name'' (JStr '''')),
                (''rssi'', dict_get c ''rssi'' JNull),
                (''snr'', dict_get c ''snr'' JNull),
                (''adv_type'', dict_get c ''type'' JNull),
                (''latitude'', lat),
                (''longitude'', lon)]))
      | _ \<Rightarrow> Inl (no_attribute contact ''get''))"

text \<open>The loop over \<open>self.meshcore.contacts.items()\<close>, appending to \<open>contacts\<close>.\<close>

fun contacts_loop :: "(string \<times> json) list \<Rightarrow> json list \<Rightarrow> exn + json list" where
  "contacts_loop [] contacts = Inr contacts"
| "contacts_loop ((key, contact) # items) contacts =
     (case contact_record key contact of
        Inl e \<Rightarrow> Inl e
      | Inr r \<Rightarrow> contacts_loop items (contacts @ [r]))"

subsection \<open>Command handlers\<close>

text \<open>
  A handler takes the bridge and returns the response, or the exception it raised, with
  the bridge as the handler left it. \<open>cmd_disconnect\<close> cannot raise: its only library
  call stands under a bare \<open>except\<close>.
\<close>

definition cmd_disconnect :: "env \<Rightarrow> json \<Rightarrow> bridge \<Rightarrow> json \<times> bridge" where
  "cmd_disconnect env cmd_id st =
     (let st1 = (case meshcore st of
                   Some m \<Rightarrow> snd (lib_call env Disconnect st)
                 | None \<Rightarrow> st)
      in (JObj [(''id'', cmd_id), (''success'', JBool True),
                (''data'', JObj [(''connected'', JBool False)])],
          st1\<lparr>meshcore := None, connection := None, connected := False\<rparr>))"

text \<open>
  The response of \<open>cmd_connect\<close> when the handshake returns \<open>None\<close>. The eight
  bytes between the two parts of the message are the UTF-8 encoding of the three
  characters U+00E2, U+20AC, U+201D that the source file holds there.
\<close>

definition no_device_response :: "json \<Rightarrow> json" where
  "no_device_response cmd_id =
     JObj [(''id'', cmd_id), (''success'', JBool False),
           (''error'', JStr (''No response from device ''
              @ [CHR 0xC3, CHR 0xA2, CHR 0xE2, CHR 0x82, CHR 0xAC, CHR 0xE2, CHR 0x80, CHR 0x9D]
              @ '' check connection and ensure it is a Companion node (not a Repeater)''))]"

text \<open>
  The part of \<open>cmd_connect\<close> after the transport kind is chosen: the connection
  object is built and stored, then the \<open>MeshCore\<close> object, then the handshake runs.
\<close>

definition open_session :: "env \<Rightarrow> json \<Rightarrow> conn \<Rightarrow> bridge \<Rightarrow> (exn + json) \<times> bridge" where
  "open_session env cmd_id c st =
     (case lib_call env (New_connection c) st of
        (Inl e, st1) \<Rightarrow> (Inl e, st1)
      | (Inr obj, st1) \<Rightarrow>
          (case lib_call env (New_meshcore c) (st1\<lparr>connection := Some c\<rparr>) of
             (Inl e, st2) \<Rightarrow> (Inl e, st2)
           | (Inr obj', st2) \<Rightarrow>
               (case lib_call env Connect (st2\<lparr>meshcore := Some (MeshCore c)\<rparr>) of
                  (Inl e, st3) \<Rightarrow> (Inl e, st3)
                | (Inr result, st3) \<Rightarrow>
                    if result = JNull then
                      (Inr (no_device_response cmd_id),
                       st3\<lparr>meshcore := None, connection := None\<rparr>)
                    else
                      (case lib_call env Self_info (st3\<lparr>connected := True\<rparr>) of
                         (Inl e, st4) \<Rightarrow> (Inl e, st4)
                       | (Inr info, st4) \<Rightarrow>
                           (case serialize_self_info (py_or info (JObj [])) of
                              Inl e \<Rightarrow> (Inl e, st4)
                            | Inr s \<Rightarrow>
                                (Inr (JObj [(''id'', cmd_id), (''success'', JBool True),
                                   (''data'', JObj [(''connected'', JBool True), (''self_info'', s)])]),
                                 st4))))))"

definition cmd_connect ::
  "env \<Rightarrow> json \<Rightarrow> (string \<times> json) list \<Rightarrow> bridge \<Rightarrow> (exn + json) \<times> bridge" where
  "cmd_connect env cmd_id cmd_data st =
     (if \<not> MESHCORE_AVAILABLE env then
        (Inr (JObj [(''id'', cmd_id), (''success'', JBool False),
           (''error'', JStr ''meshcore library not installed. Run: pip install meshcore'')]), st)
      else
        let st0 = (if connected st then snd (cmd_disconnect env cmd_id st) else st);
            connection_type = dict_get cmd_data ''type'' (JStr ''serial'')
        in if connection_type = JStr ''tcp'' then
             if \<not> TCP_AVAILABLE env then
               (Inr (JObj [(''id'', cmd_id), (''success'', JBool False),
                  (''error'', JStr ''TCP not supported - meshcore TCPConnection not available'')]), st0)
             else
               open_session env cmd_id
                 (TCPConnection (dict_get cmd_data ''host'' (JStr ''localhost''))
                                (dict_get cmd_data ''tcp_port'' (JInt 4403))) st0
           else
             open_session env cmd_id
               (SerialConnection (dict_get cmd_data ''port'' (JStr ''/dev/ttyACM0''))
                                 (dict_get cmd_data ''baud'' (JInt 115200))) st0)"

text \<open>The response of every guarded handler when its guard fails.\<close>

definition not_connected :: "json \<Rightarrow> json" where
  "not_connected cmd_id =
     JObj [(''id'', cmd_id), (''success'', JBool False), (''error'', JStr ''Not connected'')]"

definition cmd_get_self_info :: "env \<Rightarrow> json \<Rightarrow> bridge \<Rightarrow> (exn + json) \<times> bridge" where
  "cmd_get_self_info env cmd_id st =
     (if \<not> connected st \<or> meshcore st = None then (Inr (not_connected cmd_id), st)
      else
        case lib_call env Self_info st of
          (Inl e, st1) \<Rightarrow> (Inl e, st1)
        | (Inr info, st1) \<Rightarrow>
            (case serialize_self_info (py_or info (JObj [])) of
               Inl e \<Rightarrow> (Inl e, st1)
             | Inr s \<Rightarrow>
                 (Inr (JObj [(''id'', cmd_id), (''success'', JBool True), (''data'', s)]), st1)))"

definition cmd_get_contacts :: "env \<Rightarrow> json \<Rightarrow> bridge \<Rightarrow> (exn + json) \<times> bridge" where
  "cmd_get_contacts env cmd_id st =
     (if \<not> connected st \<or> meshcore st = None then (Inr (not_connected cmd_id), st)
      else
        case lib_call env Get_contacts st of
          (Inl e, st1) \<Rightarrow> (Inl e, st1)
        | (Inr r, st1) \<Rightarrow>
            (case lib_call env Contacts st1 of
               (Inl e, st2) \<Rightarrow> (Inl e, st2)
             | (Inr cs, st2) \<Rightarrow>
                 (case cs of
                    JObj items \<Rightarrow>
                      (case contacts_loop items [] of
                         Inl e \<Rightarrow> (Inl e, st2)
                       | Inr contacts \<Rightarrow>
                           (Inr (JObj [(''id'', cmd_id), (''success'', JBool True),
                              (''data'', JArr contacts)]), st2))
                  | _ \<Rightarrow> (Inl (no_attribute cs ''items''), st2))))"

definition cmd_send_message ::
  "env \<Rightarrow> json \<Rightarrow> (string \<times> json) list \<Rightarrow> bridge \<Rightarrow> (exn + json) \<times> bridge" where
  "cmd_send_message env cmd_id cmd_data st =
     (if \<not> connected st \<or> meshcore st = None then (Inr (not_connected cmd_id), st)
      else
        let text = dict_get cmd_data ''text'' (JStr '''');
            to_key = dict_get cmd_data ''to'' JNull
        in case lib_call env (if truthy to_key then Send_msg to_key text
                              else Send_chan_msg (JInt 0) text) st of
             (Inl e, st1) \<Rightarrow> (Inl e, st1)
           | (Inr r, st1) \<Rightarrow>
               (Inr (JObj [(''id'', cmd_id), (''success'', JBool True),
                  (''data'', JObj [(''sent'', JBool True)])]), st1))"

definition cmd_send_advert :: "env \<Rightarrow> json \<Rightarrow> bridge \<Rightarrow> (exn + json) \<times> bridge" where
  "cmd_send_advert env cmd_id st =
     (if \<not> connected st \<or> meshcore st = None then (Inr (not_connected cmd_id), st)
      else
        case lib_call env Send_advert st of
          (Inl e, st1) \<Rightarrow> (Inl e, st1)
        | (Inr r, st1) \<Rightarrow>
            (Inr (JObj [(''id'', cmd_id), (''success'', JBool True),
               (''data'', JObj [(''sent'', JBool True)])]), st1))"

definition cmd_login ::
  "env \<Rightarrow> json \<Rightarrow> (string \<times> json) list \<Rightarrow> bridge \<Rightarrow> (exn + json) \<times> bridge" where
  "cmd_login env cmd_id cmd_data st =
     (if \<not> connected st \<or> meshcore st = None then (Inr (not_connected cmd_id), st)
      else
        let public_key = dict_get cmd_data ''public_key'' (JStr '''');
            password = dict_get cmd_data ''password'' (JStr '''')
        in case lib_call env (Send_login public_key password) st of
             (Inl e, st1) \<Rightarrow> (Inl e, st1)
           | (Inr r, st1) \<Rightarrow>
               (Inr (JObj [(''id'', cmd_id), (''success'', JBool True),
                  (''data'', JObj [(''logged_in'', JBool True)])]), st1))"

text \<open>
  \<open>cmd_get_status\<close>. The wait bound handed to \<open>req_status_sync\<close> is the literal
  \<open>timeout=10\<close>. A reply that is true but not a dict has no \<open>get\<close>.
\<close>

definition cmd_get_status ::
  "env \<Rightarrow> json \<Rightarrow> (string \<times> json) list \<Rightarrow> bridge \<Rightarrow> (exn + json) \<times> bridge" where
  "cmd_get_status env cmd_id cmd_data st =
     (if \<not> connected st \<or> meshcore st = None then (Inr (not_connected cmd_id), st)
      else
        let public_key = dict_get cmd_data ''public_key'' (JStr '''')
        in case lib_call env (Req_status_sync public_key (JInt 10)) st of
             (Inl e, st1) \<Rightarrow> (Inl e, st1)
           | (Inr status, st1) \<Rightarrow>
               if truthy status then
                 (case status of
                    JObj s \<Rightarrow>
                      (Inr (JObj [(''id'', cmd_id), (''success'', JBool True),
                         (''data'', JObj [
                            (''bat_mv'', dict_get s ''bat_mv'' JNull),
                            (''up_secs'', dict_get s ''up_secs'' JNull),
                            (''tx_power'', dict_get s ''tx_power'' JNull),
                            (''radio_freq'', dict_get s ''radio_freq'' JNull),
                            (''radio_bw'', dict_get s ''radio_bw'' JNull),
                            (''radio_sf'', dict_get s ''radio_sf'' JNull),
                            (''radio_cr'', dict_get s ''radio_cr'' JNull)])]), st1)
                  | _ \<Rightarrow> (Inl (no_attribute status ''get''), st1))
               else
                 (Inr (JObj [(''id'', cmd_id), (''success'', JBool False),
                    (''error'', JStr ''No status received'')]), st1))"

definition cmd_set_name ::
  "env \<Rightarrow> json \<Rightarrow> (string \<times> json) list \<Rightarrow> bridge \<Rightarrow> (exn + json) \<times> bridge" where
  "cmd_set_name env cmd_id cmd_data st =
     (if \<not> connected st \<or> meshcore st = None then (Inr (not_connected cmd_id), st)
      else
        let name = dict_get cmd_data ''name'' (JStr '''')
        in case lib_call env (Set_name name) st of
             (Inl e, st1) \<Rightarrow> (Inl e, st1)
           | (Inr r, st1) \<Rightarrow>
               (Inr (JObj [(''id'', cmd_id), (''success'', JBool True),
                  (''data'', JObj [(''name'', name)])]), st1))"

definition cmd_set_radio ::
  "env \<Rightarrow> json \<Rightarrow> (string \<times> json) list \<Rightarrow> bridge \<Rightarrow> (exn + json) \<times> bridge" where
  "cmd_set_radio env cmd_id cmd_data st =
     (if \<not> connected st \<or> meshcore st = None then (Inr (not_connected cmd_id), st)
      else
        let freq = dict_get cmd_data ''freq'' JNull;
            bw = dict_get cmd_data ''bw'' JNull;
            sf = dict_get cmd_data ''sf'' JNull;
            cr = dict_get cmd_data ''cr'' JNull
        in case lib_call env (Set_radio freq bw sf cr) st of
             (Inl e, st1) \<Rightarrow> (Inl e, st1)
           | (Inr r, st1) \<Rightarrow>
               (Inr (JObj [(''id'', cmd_id), (''success'', JBool True),
                  (''data'', JObj [(''set'', JBool True)])]), st1))"

definition cmd_shutdown :: "env \<Rightarrow> json \<Rightarrow> bridge \<Rightarrow> json \<times> bridge" where
  "cmd_shutdown env cmd_id st =
     (let st1 = st\<lparr>running := False\<rparr>;
          st2 = (if connected st1 then snd (cmd_disconnect env cmd_id st1) else st1)
      in (JObj [(''id'', cmd_id), (''success'', JBool True),
                (''data'', JObj [(''shutdown'', JBool True)])], st2))"

subsection \<open>The dispatcher\<close>

text \<open>The body of the \<open>try\<close> of \<open>handle_command\<close>: the chain of comparisons.\<close>

definition dispatch ::
  "env \<Rightarrow> json \<Rightarrow> json \<Rightarrow> (string \<times> json) list \<Rightarrow> bridge \<Rightarrow> (exn + json) \<times> bridge" where
  "dispatch env cmd_id cmd cmd_data st =
     (if cmd = JStr ''connect'' then cmd_connect env cmd_id cmd_data st
      else if cmd = JStr ''disconnect'' then
        (Inr (fst (cmd_disconnect env cmd_id st)), snd (cmd_disconnect env cmd_id st))
      else if cmd = JStr ''get_self_info'' then cmd_get_self_info env cmd_id st
      else if cmd = JStr ''get_contacts'' then cmd_get_contacts env cmd_id st
      else if cmd = JStr ''send_message'' then cmd_send_message env cmd_id cmd_data st
      else if cmd = JStr ''send_advert'' then cmd_send_advert env cmd_id st
      else if cmd = JStr ''login'' then cmd_login env cmd_id cmd_data st
      else if cmd = JStr ''get_status'' then cmd_get_status env cmd_id cmd_data st
      else if cmd = JStr ''set_name'' then cmd_set_name env cmd_id cmd_data st
      else if cmd = JStr ''set_radio'' then cmd_set_radio env cmd_id cmd_data st
      else if cmd = JStr ''shutdown'' then
        (Inr (fst (cmd_shutdown env cmd_id st)), snd (cmd_shutdown env cmd_id st))
      else if cmd = JStr ''ping'' then
        (Inr (JObj [(''id'', cmd_id), (''success'', JBool True), (''data'', JStr ''pong'')]), st)
      else
        (Inr (JObj [(''id'', cmd_id), (''success'', JBool False),
           (''error'', JStr (''Unknown command: '' @ py_format env cmd))]), st))"

text \<open>
  \<open>handle_command\<close>. The two \<open>cmd_data.get\<close> stand before the \<open>try\<close>: on a value
  that is not a dict the first one raises out of the function. Inside the \<open>try\<close> every
  exception becomes a response.
\<close>

definition handle_command :: "env \<Rightarrow> json \<Rightarrow> bridge \<Rightarrow> (exn + json) \<times> bridge" where
  "handle_command env cmd_data st =
     (case cmd_data of
        JObj d \<Rightarrow>
          (let cmd_id = dict_get d ''id'' (JStr ''unknown'');
               cmd = dict_get d ''cmd'' (JStr '''')
           in case dispatch env cmd_id cmd d st of
                (Inr response, st1) \<Rightarrow> (Inr response, st1)
              | (Inl e, st1) \<Rightarrow>
                  (Inr (JObj [(''id'', cmd_id), (''success'', JBool False),
                     (''error'', JStr (str_exn e)), (''traceback'', JStr (format_exc env e))]),
                   st1))
      | _ \<Rightarrow> (Inl (no_attribute cmd_data ''get''), st))"

subsection \<open>The line protocol loop\<close>

text \<open>
  What one \<open>wait_for(reader.readline(), timeout=1.0)\<close> yields: the timeout, a line of
  bytes (the empty line is the end of input), or an exception of the reader.
\<close>

datatype read = TimeoutError | Line string | ReadError exn

text \<open>
  The result of running the loop over a finite prefix of what the reader yields: the
  lines printed, the bridge, the reads not consumed, and whether the loop was left
  (\<open>exited\<close>) or is still waiting for input when the prefix ends. Lines are printed by
  \<open>print(json.dumps(response), flush=True)\<close>; the model keeps the value that is dumped.
  Standard output is taken to be writable and every value to be serializable. Signal
  handlers are not modelled, so \<open>running\<close> changes only through \<open>cmd_shutdown\<close>.
\<close>

record run_result =
  printed :: "json list"
  final :: bridge
  unread :: "read list"
  exited :: bool

definition emit :: "json \<Rightarrow> run_result \<Rightarrow> run_result" where
  "emit response r = r\<lparr>printed := response # printed r\<rparr>"

fun run_loop :: "env \<Rightarrow> bridge \<Rightarrow> read list \<Rightarrow> run_result" where
  "run_loop env st [] =
     \<lparr>printed = [], final = st, unread = [], exited = \<not> running st\<rparr>"
| "run_loop env st (ev # evs) =
     (if \<not> running st then \<lparr>printed = [], final = st, unread = ev # evs, exited = True\<rparr>
      else
        case ev of
          TimeoutError \<Rightarrow> run_loop env st evs
        | ReadError e \<Rightarrow>
            emit (JObj [(''id'', JStr ''unknown''), (''success'', JBool False),
                        (''error'', JStr (str_exn e))])
                 (run_loop env st evs)
        | Line line \<Rightarrow>
            (if line = [] then \<lparr>printed = [], final = st, unread = evs, exited = True\<rparr>
             else
               (case decode env line of
                  Inl e \<Rightarrow>
                    emit (JObj [(''id'', JStr ''unknown''), (''success'', JBool False),
                                (''error'', JStr (str_exn e))])
                         (run_loop env st evs)
                | Inr s \<Rightarrow>
                    (if strip env s = [] then run_loop env st evs
                     else
                       (case json_loads env (strip env s) of
                          Inl (JSONDecodeError m) \<Rightarrow>
                            emit (JObj [(''id'', JStr ''unknown''), (''success'', JBool False),
                                        (''error'', JStr (''Invalid JSON: '' @ m))])
                                 (run_loop env st evs)
                        | Inl e \<Rightarrow>
                            emit (JObj [(''id'', JStr ''unknown''), (''success'', JBool False),
                                        (''error'', JStr (str_exn e))])
                                 (run_loop env st evs)
                        | Inr cmd_data \<Rightarrow>
                            (case handle_command env cmd_data st of
                               (Inl e, st1) \<Rightarrow>
                                 emit (JObj [(''id'', JStr ''unknown''), (''success'', JBool False),
                                             (''error'', JStr (str_exn e))])
                                      (run_loop env st1 evs)
                             | (Inr response, st1) \<Rightarrow>
                                 emit response (run_loop env st1 evs)))))))"

text \<open>
  \<open>run\<close>: the ready line, the loop, and the clean disconnect once the loop is left.
\<close>

definition run :: "env \<Rightarrow> bridge \<Rightarrow> read list \<Rightarrow> run_result" where
  "run env st evs =
     (let r = emit (JObj [(''type'', JStr ''ready''),
                          (''meshcore_available'', JBool (MESHCORE_AVAILABLE env)),
                          (''tcp_available'', JBool (TCP_AVAILABLE env))])
                   (run_loop env st evs)
      in if exited r \<and> connected (final r)
         then r\<lparr>final := snd (cmd_disconnect env (JStr ''shutdown'') (final r))\<rparr>
         else r)"

section \<open>Reading responses and requests\<close>

text \<open>The field \<open>k\<close> of a printed object, when it has one.\<close>

definition obj_field :: "json \<Rightarrow> string \<Rightarrow> json option" where
  "obj_field v k = (case v of JObj kv \<Rightarrow> map_of kv k | _ \<Rightarrow> None)"

text \<open>
  A serialized identity or contact record carries no zero coordinate: it has both
  fields, and neither compares equal to \<open>0.0\<close>.
\<close>

definition no_zero_coordinate :: "json \<Rightarrow> bool" where
  "no_zero_coordinate r =
     (case (obj_field r ''latitude'', obj_field r ''longitude'') of
        (Some lat, Some lon) \<Rightarrow> \<not> eq_zero lat \<and> \<not> eq_zero lon
      | _ \<Rightarrow> False)"

text \<open>
  A coordinate field of a device record that holds no position: the key is missing, or
  its value is \<open>None\<close> or compares equal to \<open>0.0\<close>.
\<close>

definition zero_or_absent :: "json option \<Rightarrow> bool" where
  "zero_or_absent field = (case field of None \<Rightarrow> True | Some v \<Rightarrow> v = JNull \<or> eq_zero v)"

text \<open>
  A line of input parses as the request \<open>d\<close>: it is not the end of input, it decodes,
  it is not blank, and \<open>json.loads\<close> returns the dict \<open>d\<close>.
\<close>

definition parses_as :: "env \<Rightarrow> string \<Rightarrow> (string \<times> json) list \<Rightarrow> bool" where
  "parses_as env line d =
     (line \<noteq> [] \<and>
      (case decode env line of
         Inl e \<Rightarrow> False
       | Inr s \<Rightarrow> strip env s \<noteq> [] \<and> json_loads env (strip env s) = Inr (JObj d)))"

text \<open>
  A line of input is malformed with message \<open>m\<close>: it decodes, it is not blank, and
  \<open>json.loads\<close> raises \<open>JSONDecodeError\<close>.
\<close>

definition malformed :: "env \<Rightarrow> string \<Rightarrow> string \<Rightarrow> bool" where
  "malformed env line m =
     (line \<noteq> [] \<and>
      (case decode env line of
         Inl e \<Rightarrow> False
       | Inr s \<Rightarrow> strip env s \<noteq> [] \<and> json_loads env (strip env s) = Inl (JSONDecodeError m)))"

text \<open>The bridge state invariant: a connected bridge holds both handles.\<close>

definition handles_present :: "bridge \<Rightarrow> bool" where
  "handles_present st = (\<not> connected st \<or> (meshcore st \<noteq> None \<and> connection st \<noteq> None))"

text \<open>
  What arrives at the reader while requests come in: a pause long enough for the read
  to time out, or a line together with the request it parses as.
\<close>

datatype arrival = Pause | Request string "(string \<times> json) list"

fun arrival_read :: "arrival \<Rightarrow> read" where
  "arrival_read Pause = TimeoutError"
| "arrival_read (Request line d) = Line line"

text \<open>The requests among the arrivals, in the order they arrive.\<close>

fun requests :: "arrival list \<Rightarrow> (string \<times> (string \<times> json) list) list" where
  "requests [] = []"
| "requests (Pause # xs) = requests xs"
| "requests (Request line d # xs) = (line, d) # requests xs"

text \<open>The requests up to and including the first \<open>shutdown\<close> request.\<close>

fun until_shutdown ::
  "(string \<times> (string \<times> json) list) list \<Rightarrow> (string \<times> (string \<times> json) list) list" where
  "until_shutdown [] = []"
| "until_shutdown ((line, d) # rs) =
     (if dict_get d ''cmd'' (JStr '''') = JStr ''shutdown'' then [(line, d)]
      else (line, d) # until_shutdown rs)"

text \<open>What arrives after the first \<open>shutdown\<close> request.\<close>

fun after_shutdown :: "arrival list \<Rightarrow> arrival list" where
  "after_shutdown [] = []"
| "after_shutdown (Pause # xs) = after_shutdown xs"
| "after_shutdown (Request line d # xs) =
     (if dict_get d ''cmd'' (JStr '''') = JStr ''shutdown'' then xs else after_shutdown xs)"

section \<open>A concrete environment\<close>

text \<open>
  An environment to run the model in: both transports available, ASCII input, a parser
  that knows a handful of request lines, and a device given as a parameter.
\<close>

definition ping_line :: string where
  \<open>ping_line = ''{"id":"1","cmd":"ping"}''\<close>

definition shutdown_line :: string where
  \<open>shutdown_line = ''{"id":"11","cmd":"shutdown"}''\<close>

definition contacts_line :: string where
  \<open>contacts_line = ''{"id":"2","cmd":"get_contacts"}''\<close>

definition broken_line :: string where
  \<open>broken_line = ''{"id":"3","cmd":''\<close>

definition sample_loads :: "string \<Rightarrow> exn + json" where
  "sample_loads s =
     (if s = ping_line then Inr (JObj [(''id'', JStr ''1''), (''cmd'', JStr ''ping'')])
      else if s = shutdown_line then Inr (JObj [(''id'', JStr ''11''), (''cmd'', JStr ''shutdown'')])
      else if s = contacts_line then Inr (JObj [(''id'', JStr ''2''), (''cmd'', JStr ''get_contacts'')])
      else Inl (JSONDecodeError ''Expecting value: line 1 column 1 (char 0)''))"

definition isspace :: "char \<Rightarrow> bool" where
  "isspace c = (c \<in> set [CHR 0x20, CHR 0x09, CHR 0x0A, CHR 0x0B, CHR 0x0C, CHR 0x0D])"

definition sample_strip :: "string \<Rightarrow> string" where
  "sample_strip s = rev (dropWhile isspace (rev (dropWhile isspace s)))"

definition sample_env :: "(call list \<Rightarrow> exn + json) \<Rightarrow> env" where
  "sample_env device =
     \<lparr>MESHCORE_AVAILABLE = True, TCP_AVAILABLE = True, reply = device,
      format_exc = (\<lambda>e. ''Traceback (most recent call last): '' @ str_exn e),
      repr = (\<lambda>v. type_name v),
      decode = Inr, strip = sample_strip, json_loads = sample_loads\<rparr>"

text \<open>A device that answers every call with \<open>None\<close>.\<close>

definition silent_device :: "call list \<Rightarrow> exn + json" where
  "silent_device h = Inr JNull"

text \<open>
  A device that reports itself at (0.0, 0.0), knows one contact at (12.5, -3.25) and
  one at (0.0, 0.0), and answers a status request.
\<close>

definition sample_device :: "call list \<Rightarrow> exn + json" where
  "sample_device h =
     (if h = [] then Inr JNull
      else case last h of
        Connect \<Rightarrow> Inr (JBool True)
      | Self_info \<Rightarrow>
          Inr (JObj [(''name'', JStr ''node''), (''adv_lat'', JFloat (Finite 0)),
                     (''adv_lon'', JFloat (Finite 0))])
      | Contacts \<Rightarrow>
          Inr (JObj [(''ab'', JObj [(''adv_name'', JStr ''peer''),
                                    (''adv_lat'', JFloat (Finite 12.5)),
                                    (''adv_lon'', JFloat (Finite (- 3.25)))]),
                     (''cd'', JObj [(''adv_lat'', JFloat (Finite 0)),
                                    (''adv_lon'', JFloat (Finite 0))])])
      | Req_status_sync k t \<Rightarrow> Inr (JObj [(''bat_mv'', JInt 4100), (''up_secs'', JInt 60)])
      | _ \<Rightarrow> Inr JNull)"

text \<open>The bridge after a successful serial connect with default parameters.\<close>

definition sample_connected :: bridge where
  "sample_connected =
     \<lparr>connection = Some (SerialConnection (JStr ''/dev/ttyACM0'') (JInt 115200)),
      meshcore = Some (MeshCore (SerialConnection (JStr ''/dev/ttyACM0'') (JInt 115200))),
      connected = True, running = True,
      calls = [New_connection (SerialConnection (JStr ''/dev/ttyACM0'') (JInt 115200)),
               New_meshcore (SerialConnection (JStr ''/dev/ttyACM0'') (JInt 115200)),
               Connect, Self_info]\<rparr>"

text \<open>A device whose handshake fails with a transport error.\<close>

definition failing_device :: "call list \<Rightarrow> exn + json" where
  "failing_device h =
     (if h \<noteq> [] \<and> last h = Connect then Inl (OtherError ''could not open port /dev/ttyACM0'')
      else Inr JNull)"

section \<open>Disconnect\<close>

text \<open>
  Claim C6. \<open>cmd_disconnect\<close> always answers with success and \<open>{connected: false}\<close>,
  whatever the bridge was and whatever the library's \<open>disconnect\<close> does; afterwards the
  bridge is disconnected with both handles cleared and \<open>running\<close> untouched; on a bridge
  that is already disconnected and cleared nothing changes; and disconnecting a second
  time gives the same response and the same bridge (library history included) as
  disconnecting once.
\<close>

theorem disconnect_idempotent:
  "fst (cmd_disconnect env cmd_id st) =
     JObj [(''id'', cmd_id), (''success'', JBool True),
           (''data'', JObj [(''connected'', JBool False)])]
   \<and> \<not> connected (snd (cmd_disconnect env cmd_id st))
   \<and> meshcore (snd (cmd_disconnect env cmd_id st)) = None
   \<and> connection (snd (cmd_disconnect env cmd_id st)) = None
   \<and> running (snd (cmd_disconnect env cmd_id st)) = running st
   \<and> snd (cmd_disconnect env cmd_id
            (st\<lparr>meshcore := None, connection := None, connected := False\<rparr>))
       = st\<lparr>meshcore := None, connection := None, connected := False\<rparr>
   \<and> cmd_disconnect env cmd_id (snd (cmd_disconnect env cmd_id st))
       = cmd_disconnect env cmd_id st"
  by (simp add: cmd_disconnect_def lib_call_def Let_def split: option.splits)

section \<open>Commands on a disconnected bridge\<close>

text \<open>
  Claim C3, as stated, fails: \<open>disconnect\<close> is a command other than \<open>connect\<close>, and
  on the freshly created (disconnected) bridge it answers with success, not with
  \<open>Not connected\<close>.
\<close>

theorem disconnect_not_guarded:
  "\<not> connected init
   \<and> JStr ''disconnect'' \<noteq> JStr ''connect''
   \<and> handle_command (sample_env sample_device)
        (JObj [(''id'', JStr ''2''), (''cmd'', JStr ''disconnect'')]) init
       = (Inr (JObj [(''id'', JStr ''2''), (''success'', JBool True),
                     (''data'', JObj [(''connected'', JBool False)])]), init)
   \<and> fst (handle_command (sample_env sample_device)
        (JObj [(''id'', JStr ''2''), (''cmd'', JStr ''disconnect'')]) init)
       \<noteq> Inr (not_connected (JStr ''2''))"
  by (simp add: init_def handle_command_def dispatch_def cmd_disconnect_def dict_get_def
      not_connected_def Let_def)

text \<open>
  Claim C3, amended. For each of the eight guarded commands (\<open>get_self_info\<close>,
  \<open>get_contacts\<close>, \<open>send_message\<close>, \<open>send_advert\<close>, \<open>login\<close>, \<open>get_status\<close>,
  \<open>set_name\<close>, \<open>set_radio\<close>), dispatching the command while the bridge is not
  connected answers with success false and \<open>Not connected\<close> under the request's id, and
  leaves the whole bridge unchanged: no flag, no handle, and no library call.
\<close>

theorem guarded_commands_not_connected:
  assumes "\<not> connected st"
    and "dict_get d ''cmd'' (JStr '''') \<in> JStr ` {''get_self_info'', ''get_contacts'',
           ''send_message'', ''send_advert'', ''login'', ''get_status'', ''set_name'',
           ''set_radio''}"
  shows "handle_command env (JObj d) st
           = (Inr (not_connected (dict_get d ''id'' (JStr ''unknown''))), st)"
  using assms
  by (auto simp: handle_command_def dispatch_def cmd_get_self_info_def cmd_get_contacts_def
      cmd_send_message_def cmd_send_advert_def cmd_login_def cmd_get_status_def cmd_set_name_def
      cmd_set_radio_def Let_def)

theorem guarded_commands_not_connected_witness:
  "\<not> connected init
   \<and> dict_get [(''id'', JStr ''2''), (''cmd'', JStr ''get_contacts'')] ''cmd'' (JStr '''')
       \<in> JStr ` {''get_self_info'', ''get_contacts'', ''send_message'',
           ''send_advert'', ''login'', ''get_status'', ''set_name'', ''set_radio''}
   \<and> handle_command (sample_env sample_device)
        (JObj [(''id'', JStr ''2''), (''cmd'', JStr ''get_contacts'')]) init
       = (Inr (JObj [(''id'', JStr ''2''), (''success'', JBool False),
                     (''error'', JStr ''Not connected'')]), init)"
proof -
  have a: "\<not> connected init" by (simp add: init_def)
  have b: "dict_get [(''id'', JStr ''2''), (''cmd'', JStr ''get_contacts'')] ''cmd'' (JStr '''')
       \<in> JStr ` {''get_self_info'', ''get_contacts'', ''send_message'',
           ''send_advert'', ''login'', ''get_status'', ''set_name'', ''set_radio''}"
    by (simp add: dict_get_def)
  from guarded_commands_not_connected[OF a b, of "sample_env sample_device"] a b
  show ?thesis
    by (simp add: dict_get_def not_connected_def)
qed

section \<open>Connect without a device response\<close>

lemma pre_connect_state:
  "\<not> connected (if connected st then snd (cmd_disconnect env cmd_id st) else st)"
  by (simp add: cmd_disconnect_def)

lemma open_session_none:
  assumes "reply env (calls st @ [New_connection c]) = Inr v1"
    and "reply env (calls st @ [New_connection c, New_meshcore c]) = Inr v2"
    and "reply env (calls st @ [New_connection c, New_meshcore c, Connect]) = Inr JNull"
  shows "open_session env cmd_id c st
           = (Inr (no_device_response cmd_id),
              st\<lparr>calls := calls st @ [New_connection c, New_meshcore c, Connect],
                 meshcore := None, connection := None\<rparr>)"
  using assms by (simp add: open_session_def lib_call_def)

lemma open_session_raises:
  assumes "reply env (calls st @ [New_connection c]) = Inr v1"
    and "reply env (calls st @ [New_connection c, New_meshcore c]) = Inr v2"
    and "reply env (calls st @ [New_connection c, New_meshcore c, Connect]) = Inl e"
  shows "open_session env cmd_id c st
           = (Inl e,
              st\<lparr>calls := calls st @ [New_connection c, New_meshcore c, Connect],
                 meshcore := Some (MeshCore c), connection := Some c\<rparr>)"
  using assms by (simp add: open_session_def lib_call_def)

lemma cmd_connect_open_session:
  assumes "MESHCORE_AVAILABLE env"
    and "dict_get d ''type'' (JStr ''serial'') = JStr ''tcp'' \<longrightarrow> TCP_AVAILABLE env"
  shows "cmd_connect env cmd_id d st
           = open_session env cmd_id
               (if dict_get d ''type'' (JStr ''serial'') = JStr ''tcp''
                then TCPConnection (dict_get d ''host'' (JStr ''localhost''))
                                   (dict_get d ''tcp_port'' (JInt 4403))
                else SerialConnection (dict_get d ''port'' (JStr ''/dev/ttyACM0''))
                                      (dict_get d ''baud'' (JInt 115200)))
               (if connected st then snd (cmd_disconnect env cmd_id st) else st)"
  using assms by (simp add: cmd_connect_def Let_def)

lemma handle_connect:
  assumes "dict_get d ''cmd'' (JStr '''') = JStr ''connect''"
  shows "handle_command env (JObj d) st
           = (case cmd_connect env (dict_get d ''id'' (JStr ''unknown'')) d st of
                (Inr response, st1) \<Rightarrow> (Inr response, st1)
              | (Inl e, st1) \<Rightarrow>
                  (Inr (JObj [(''id'', dict_get d ''id'' (JStr ''unknown'')),
                              (''success'', JBool False),
                              (''error'', JStr (str_exn e)),
                              (''traceback'', JStr (format_exc env e))]), st1))"
  using assms by (simp add: handle_command_def dispatch_def Let_def)

text \<open>
  Claim C5. Take any \<open>connect\<close> request on a bridge in any state, in an environment
  where the library is installed (and its TCP transport too, when the request asks for
  it) and where building the connection object and the \<open>MeshCore\<close> object succeeds.
  The history of library calls at the handshake is the one the bridge had after the
  implicit disconnect of a connected session, followed by the two constructors and
  \<open>connect()\<close>. If the library answers that handshake with \<open>None\<close>, then
  \<open>cmd_connect\<close>, and \<open>handle_command\<close> on the request, return the response with
  success false and the no-response message, and the bridge is left disconnected with
  the meshcore and connection handles cleared. If the library instead raises at the
  handshake (a transport failure), \<open>cmd_connect\<close> raises, and the response that
  \<open>handle_command\<close> makes of it carries the exception's message and a traceback: it
  is not the no-response failure.
\<close>

theorem connect_no_device_response:
  assumes avail: "MESHCORE_AVAILABLE env"
    and tcp: "dict_get d ''type'' (JStr ''serial'') = JStr ''tcp'' \<longrightarrow> TCP_AVAILABLE env"
    and st0: "st0 = (if connected st then snd (cmd_disconnect env cmd_id st) else st)"
    and c: "c = (if dict_get d ''type'' (JStr ''serial'') = JStr ''tcp''
                 then TCPConnection (dict_get d ''host'' (JStr ''localhost''))
                                    (dict_get d ''tcp_port'' (JInt 4403))
                 else SerialConnection (dict_get d ''port'' (JStr ''/dev/ttyACM0''))
                                       (dict_get d ''baud'' (JInt 115200)))"
    and new_conn: "reply env (calls st0 @ [New_connection c]) = Inr v1"
    and new_mc: "reply env (calls st0 @ [New_connection c, New_meshcore c]) = Inr v2"
    and cmd: "dict_get d ''cmd'' (JStr '''') = JStr ''connect''"
    and cid: "cmd_id = dict_get d ''id'' (JStr ''unknown'')"
  shows "(reply env (calls st0 @ [New_connection c, New_meshcore c, Connect]) = Inr JNull
          \<longrightarrow> cmd_connect env cmd_id d st
                = (Inr (JObj [(''id'', cmd_id), (''success'', JBool False),
                     (''error'', JStr (''No response from device ''
                        @ [CHR 0xC3, CHR 0xA2, CHR 0xE2, CHR 0x82, CHR 0xAC, CHR 0xE2,
                           CHR 0x80, CHR 0x9D]
                        @ '' check connection and ensure it is a Companion node (not a Repeater)''))]),
                   st0\<lparr>calls := calls st0 @ [New_connection c, New_meshcore c, Connect],
                       meshcore := None, connection := None\<rparr>)
              \<and> handle_command env (JObj d) st = cmd_connect env cmd_id d st
              \<and> \<not> connected (snd (cmd_connect env cmd_id d st))
              \<and> meshcore (snd (cmd_connect env cmd_id d st)) = None
              \<and> connection (snd (cmd_connect env cmd_id d st)) = None)
       \<and> (\<forall>e. reply env (calls st0 @ [New_connection c, New_meshcore c, Connect]) = Inl e
          \<longrightarrow> fst (cmd_connect env cmd_id d st) = Inl e
              \<and> fst (handle_command env (JObj d) st)
                  = Inr (JObj [(''id'', cmd_id), (''success'', JBool False),
                               (''error'', JStr (str_exn e)),
                               (''traceback'', JStr (format_exc env e))])
              \<and> fst (handle_command env (JObj d) st) \<noteq> Inr (no_device_response cmd_id))"
proof -
  have c0: "\<not> connected st0"
    unfolding st0 by (rule pre_connect_state)
  have eq: "cmd_connect env cmd_id d st = open_session env cmd_id c st0"
    unfolding st0 c by (rule cmd_connect_open_session[OF avail tcp])
  note hc = handle_connect[OF cmd, of env st, folded cid]
  have none: "cmd_connect env cmd_id d st
                = (Inr (no_device_response cmd_id),
                   st0\<lparr>calls := calls st0 @ [New_connection c, New_meshcore c, Connect],
                       meshcore := None, connection := None\<rparr>)"
    if "reply env (calls st0 @ [New_connection c, New_meshcore c, Connect]) = Inr JNull"
    unfolding eq by (rule open_session_none[OF new_conn new_mc that])
  have raises: "cmd_connect env cmd_id d st
                = (Inl e,
                   st0\<lparr>calls := calls st0 @ [New_connection c, New_meshcore c, Connect],
                       meshcore := Some (MeshCore c), connection := Some c\<rparr>)"
    if "reply env (calls st0 @ [New_connection c, New_meshcore c, Connect]) = Inl e" for e
    unfolding eq by (rule open_session_raises[OF new_conn new_mc that])
  have a: "cmd_connect env cmd_id d st
                = (Inr (JObj [(''id'', cmd_id), (''success'', JBool False),
                     (''error'', JStr (''No response from device ''
                        @ [CHR 0xC3, CHR 0xA2, CHR 0xE2, CHR 0x82, CHR 0xAC, CHR 0xE2,
                           CHR 0x80, CHR 0x9D]
                        @ '' check connection and ensure it is a Companion node (not a Repeater)''))]),
                   st0\<lparr>calls := calls st0 @ [New_connection c, New_meshcore c, Connect],
                       meshcore := None, connection := None\<rparr>)
              \<and> handle_command env (JObj d) st = cmd_connect env cmd_id d st
              \<and> \<not> connected (snd (cmd_connect env cmd_id d st))
              \<and> meshcore (snd (cmd_connect env cmd_id d st)) = None
              \<and> connection (snd (cmd_connect env cmd_id d st)) = None"
    if "reply env (calls st0 @ [New_connection c, New_meshcore c, Connect]) = Inr JNull"
    using none[OF that] c0 hc by (simp add: no_device_response_def)
  have b: "fst (cmd_connect env cmd_id d st) = Inl e
              \<and> fst (handle_command env (JObj d) st)
                  = Inr (JObj [(''id'', cmd_id), (''success'', JBool False),
                               (''error'', JStr (str_exn e)),
                               (''traceback'', JStr (format_exc env e))])
              \<and> fst (handle_command env (JObj d) st) \<noteq> Inr (no_device_response cmd_id)"
    if "reply env (calls st0 @ [New_connection c, New_meshcore c, Connect]) = Inl e" for e
    using raises[OF that] hc by (simp add: no_device_response_def)
  from a b show ?thesis by blast
qed

theorem connect_no_device_response_witness:
  "MESHCORE_AVAILABLE (sample_env silent_device) \<and> TCP_AVAILABLE (sample_env silent_device)
   \<and> reply (sample_env silent_device)
        (calls sample_connected @
         [Disconnect,
          New_connection (TCPConnection (JStr ''localhost'') (JInt 4403)),
          New_meshcore (TCPConnection (JStr ''localhost'') (JInt 4403)),
          Connect]) = Inr JNull
   \<and> handle_command (sample_env silent_device)
        (JObj [(''id'', JStr ''1''), (''cmd'', JStr ''connect''), (''type'', JStr ''tcp'')])
        sample_connected
       = (Inr (JObj [(''id'', JStr ''1''), (''success'', JBool False),
            (''error'', JStr (''No response from device ''
               @ [CHR 0xC3, CHR 0xA2, CHR 0xE2, CHR 0x82, CHR 0xAC, CHR 0xE2, CHR 0x80, CHR 0x9D]
               @ '' check connection and ensure it is a Companion node (not a Repeater)''))]),
          \<lparr>connection = None, meshcore = None, connected = False, running = True,
           calls = calls sample_connected @
             [Disconnect,
              New_connection (TCPConnection (JStr ''localhost'') (JInt 4403)),
              New_meshcore (TCPConnection (JStr ''localhost'') (JInt 4403)),
              Connect]\<rparr>)
   \<and> reply (sample_env failing_device)
        [New_connection (SerialConnection (JStr ''/dev/ttyACM0'') (JInt 115200)),
         New_meshcore (SerialConnection (JStr ''/dev/ttyACM0'') (JInt 115200)),
         Connect] = Inl (OtherError ''could not open port /dev/ttyACM0'')
   \<and> fst (handle_command (sample_env failing_device)
        (JObj [(''id'', JStr ''1''), (''cmd'', JStr ''connect'')]) init)
       = Inr (JObj [(''id'', JStr ''1''), (''success'', JBool False),
            (''error'', JStr ''could not open port /dev/ttyACM0''),
            (''traceback'', JStr ''Traceback (most recent call last): could not open port /dev/ttyACM0'')])"
proof -
  let ?E = "sample_env silent_device"
  let ?F = "sample_env failing_device"
  let ?d = "[(''id'', JStr ''1''), (''cmd'', JStr ''connect''), (''type'', JStr ''tcp'')]"
  let ?d2 = "[(''id'', JStr ''1''), (''cmd'', JStr ''connect'')]"
  let ?t = "TCPConnection (JStr ''localhost'') (JInt 4403)"
  let ?s = "SerialConnection (JStr ''/dev/ttyACM0'') (JInt 115200)"
  let ?st0 = "sample_connected\<lparr>calls := calls sample_connected @ [Disconnect],
                 meshcore := None, connection := None, connected := False\<rparr>"
  have avail: "MESHCORE_AVAILABLE ?E" "TCP_AVAILABLE ?E" "MESHCORE_AVAILABLE ?F"
    by (simp_all add: sample_env_def)
  have tcp: "dict_get ?d ''type'' (JStr ''serial'') = JStr ''tcp'' \<longrightarrow> TCP_AVAILABLE ?E"
    "dict_get ?d2 ''type'' (JStr ''serial'') = JStr ''tcp'' \<longrightarrow> TCP_AVAILABLE ?F"
    by (simp_all add: sample_env_def dict_get_def)
  have st0: "?st0 = (if connected sample_connected
                     then snd (cmd_disconnect ?E (JStr ''1'') sample_connected)
                     else sample_connected)"
    by (simp add: cmd_disconnect_def lib_call_def sample_connected_def)
  have st02: "init = (if connected init then snd (cmd_disconnect ?F (JStr ''1'') init) else init)"
    by (simp add: init_def)
  have c: "?t = (if dict_get ?d ''type'' (JStr ''serial'') = JStr ''tcp''
                 then TCPConnection (dict_get ?d ''host'' (JStr ''localhost''))
                                    (dict_get ?d ''tcp_port'' (JInt 4403))
                 else SerialConnection (dict_get ?d ''port'' (JStr ''/dev/ttyACM0''))
                                       (dict_get ?d ''baud'' (JInt 115200)))"
    by (simp add: dict_get_def)
  have c2: "?s = (if dict_get ?d2 ''type'' (JStr ''serial'') = JStr ''tcp''
                 then TCPConnection (dict_get ?d2 ''host'' (JStr ''localhost''))
                                    (dict_get ?d2 ''tcp_port'' (JInt 4403))
                 else SerialConnection (dict_get ?d2 ''port'' (JStr ''/dev/ttyACM0''))
                                       (dict_get ?d2 ''baud'' (JInt 115200)))"
    by (simp add: dict_get_def)
  have r: "\<And>h. reply ?E h = Inr JNull"
    by (simp add: sample_env_def silent_device_def)
  have f1: "reply ?F (calls init @ [New_connection ?s]) = Inr JNull"
    and f2: "reply ?F (calls init @ [New_connection ?s, New_meshcore ?s]) = Inr JNull"
    and f3: "reply ?F (calls init @ [New_connection ?s, New_meshcore ?s, Connect])
               = Inl (OtherError ''could not open port /dev/ttyACM0'')"
    by (simp_all add: sample_env_def failing_device_def init_def)
  have cmd: "dict_get ?d ''cmd'' (JStr '''') = JStr ''connect''"
    "dict_get ?d2 ''cmd'' (JStr '''') = JStr ''connect''"
    and cid: "JStr ''1'' = dict_get ?d ''id'' (JStr ''unknown'')"
      "JStr ''1'' = dict_get ?d2 ''id'' (JStr ''unknown'')"
    by (simp_all add: dict_get_def)
  note w1 = connect_no_device_response[OF avail(1) tcp(1) st0 c r r cmd(1) cid(1)]
  note w2 = connect_no_device_response[OF avail(3) tcp(2) st02 c2 f1 f2 cmd(2) cid(2)]
  from w1 r have a: "handle_command ?E (JObj ?d) sample_connected
      = (Inr (JObj [(''id'', JStr ''1''), (''success'', JBool False),
            (''error'', JStr (''No response from device ''
               @ [CHR 0xC3, CHR 0xA2, CHR 0xE2, CHR 0x82, CHR 0xAC, CHR 0xE2, CHR 0x80, CHR 0x9D]
               @ '' check connection and ensure it is a Companion node (not a Repeater)''))]),
         ?st0\<lparr>calls := calls ?st0 @ [New_connection ?t, New_meshcore ?t, Connect],
               meshcore := None, connection := None\<rparr>)"
    by simp
  from w2 f3 have b: "fst (handle_command ?F (JObj ?d2) init)
       = Inr (JObj [(''id'', JStr ''1''), (''success'', JBool False),
            (''error'', JStr (str_exn (OtherError ''could not open port /dev/ttyACM0''))),
            (''traceback'', JStr (format_exc ?F (OtherError ''could not open port /dev/ttyACM0'')))])"
    by blast
  from a b avail r f3 show ?thesis
    by (simp add: sample_connected_def sample_env_def init_def)
qed

section \<open>What every handler keeps\<close>

text \<open>Every response carries the id of the request it answers.\<close>

lemma id_self_info:
  "fst (cmd_get_self_info env cid st) = Inr resp \<Longrightarrow> obj_field resp ''id'' = Some cid"
  by (auto simp: cmd_get_self_info_def lib_call_def obj_field_def
      not_connected_def split: sum.splits if_splits)

lemma id_contacts:
  "fst (cmd_get_contacts env cid st) = Inr resp \<Longrightarrow> obj_field resp ''id'' = Some cid"
  by (auto simp: cmd_get_contacts_def lib_call_def obj_field_def
      not_connected_def split: sum.splits if_splits json.splits)

lemma id_send_message:
  "fst (cmd_send_message env cid d st) = Inr resp \<Longrightarrow> obj_field resp ''id'' = Some cid"
  by (auto simp: cmd_send_message_def lib_call_def obj_field_def
      not_connected_def Let_def split: sum.splits if_splits)

lemma id_send_advert:
  "fst (cmd_send_advert env cid st) = Inr resp \<Longrightarrow> obj_field resp ''id'' = Some cid"
  by (auto simp: cmd_send_advert_def lib_call_def obj_field_def
      not_connected_def split: sum.splits if_splits)

lemma id_login:
  "fst (cmd_login env cid d st) = Inr resp \<Longrightarrow> obj_field resp ''id'' = Some cid"
  by (auto simp: cmd_login_def lib_call_def obj_field_def
      not_connected_def Let_def split: sum.splits if_splits)

lemma id_get_status:
  "fst (cmd_get_status env cid d st) = Inr resp \<Longrightarrow> obj_field resp ''id'' = Some cid"
  by (auto simp: cmd_get_status_def lib_call_def obj_field_def
      not_connected_def Let_def split: sum.splits if_splits json.splits)

lemma id_set_name:
  "fst (cmd_set_name env cid d st) = Inr resp \<Longrightarrow> obj_field resp ''id'' = Some cid"
  by (auto simp: cmd_set_name_def lib_call_def obj_field_def
      not_connected_def Let_def split: sum.splits if_splits)

lemma id_set_radio:
  "fst (cmd_set_radio env cid d st) = Inr resp \<Longrightarrow> obj_field resp ''id'' = Some cid"
  by (auto simp: cmd_set_radio_def lib_call_def obj_field_def
      not_connected_def Let_def split: sum.splits if_splits)

lemma id_open_session:
  "fst (open_session env cid c st) = Inr resp \<Longrightarrow> obj_field resp ''id'' = Some cid"
  by (auto simp: open_session_def lib_call_def obj_field_def no_device_response_def
      split: sum.splits if_splits)

lemma id_connect:
  "fst (cmd_connect env cid d st) = Inr resp \<Longrightarrow> obj_field resp ''id'' = Some cid"
  by (auto simp: cmd_connect_def Let_def obj_field_def dest: id_open_session split: if_splits)

lemma id_disconnect:
  "obj_field (fst (cmd_disconnect env cid st)) ''id'' = Some cid"
  by (simp add: cmd_disconnect_def Let_def obj_field_def)

lemma id_shutdown:
  "obj_field (fst (cmd_shutdown env cid st)) ''id'' = Some cid"
  by (simp add: cmd_shutdown_def Let_def obj_field_def)

lemma id_dispatch:
  "fst (dispatch env cid cmd d st) = Inr resp \<Longrightarrow> obj_field resp ''id'' = Some cid"
  unfolding dispatch_def
  by (auto simp: obj_field_def[of "JObj _"] id_disconnect id_shutdown split: if_splits
      dest: id_connect id_self_info id_contacts id_send_message id_send_advert id_login
            id_get_status id_set_name id_set_radio)

lemma handle_command_answers:
  "\<exists>resp. fst (handle_command env (JObj d) st) = Inr resp
     \<and> obj_field resp ''id'' = Some (dict_get d ''id'' (JStr ''unknown''))"
proof (cases "dispatch env (dict_get d ''id'' (JStr ''unknown''))
                (dict_get d ''cmd'' (JStr '''')) d st")
  case (Pair r st1)
  show ?thesis
  proof (cases r)
    case (Inl e)
    with Pair show ?thesis by (simp add: handle_command_def Let_def obj_field_def)
  next
    case (Inr resp)
    with Pair have "fst (dispatch env (dict_get d ''id'' (JStr ''unknown''))
        (dict_get d ''cmd'' (JStr '''')) d st) = Inr resp" by simp
    from id_dispatch[OF this] Pair Inr show ?thesis
      by (simp add: handle_command_def Let_def)
  qed
qed

text \<open>
  The guarded handlers change nothing but the library history; \<open>running\<close> changes
  only in \<open>cmd_shutdown\<close>; the handles are present whenever the bridge is connected.
\<close>

lemma frame_get_self_info:
  "connection (snd (cmd_get_self_info env cid st)) = connection st
   \<and> meshcore (snd (cmd_get_self_info env cid st)) = meshcore st
   \<and> connected (snd (cmd_get_self_info env cid st)) = connected st
   \<and> running (snd (cmd_get_self_info env cid st)) = running st"
  by (simp add: cmd_get_self_info_def lib_call_def split: sum.splits)

lemma frame_get_contacts:
  "connection (snd (cmd_get_contacts env cid st)) = connection st
   \<and> meshcore (snd (cmd_get_contacts env cid st)) = meshcore st
   \<and> connected (snd (cmd_get_contacts env cid st)) = connected st
   \<and> running (snd (cmd_get_contacts env cid st)) = running st"
  by (simp add: cmd_get_contacts_def lib_call_def split: sum.splits json.splits)

lemma frame_send_message:
  "connection (snd (cmd_send_message env cid d st)) = connection st
   \<and> meshcore (snd (cmd_send_message env cid d st)) = meshcore st
   \<and> connected (snd (cmd_send_message env cid d st)) = connected st
   \<and> running (snd (cmd_send_message env cid d st)) = running st"
  by (simp add: cmd_send_message_def lib_call_def Let_def split: sum.splits)

lemma frame_send_advert:
  "connection (snd (cmd_send_advert env cid st)) = connection st
   \<and> meshcore (snd (cmd_send_advert env cid st)) = meshcore st
   \<and> connected (snd (cmd_send_advert env cid st)) = connected st
   \<and> running (snd (cmd_send_advert env cid st)) = running st"
  by (simp add: cmd_send_advert_def lib_call_def split: sum.splits)

lemma frame_login:
  "connection (snd (cmd_login env cid d st)) = connection st
   \<and> meshcore (snd (cmd_login env cid d st)) = meshcore st
   \<and> connected (snd (cmd_login env cid d st)) = connected st
   \<and> running (snd (cmd_login env cid d st)) = running st"
  by (simp add: cmd_login_def lib_call_def Let_def split: sum.splits)

lemma frame_get_status:
  "connection (snd (cmd_get_status env cid d st)) = connection st
   \<and> meshcore (snd (cmd_get_status env cid d st)) = meshcore st
   \<and> connected (snd (cmd_get_status env cid d st)) = connected st
   \<and> running (snd (cmd_get_status env cid d st)) = running st"
  by (simp add: cmd_get_status_def lib_call_def Let_def split: sum.splits json.splits)

lemma frame_set_name:
  "connection (snd (cmd_set_name env cid d st)) = connection st
   \<and> meshcore (snd (cmd_set_name env cid d st)) = meshcore st
   \<and> connected (snd (cmd_set_name env cid d st)) = connected st
   \<and> running (snd (cmd_set_name env cid d st)) = running st"
  by (simp add: cmd_set_name_def lib_call_def Let_def split: sum.splits)

lemma frame_set_radio:
  "connection (snd (cmd_set_radio env cid d st)) = connection st
   \<and> meshcore (snd (cmd_set_radio env cid d st)) = meshcore st
   \<and> connected (snd (cmd_set_radio env cid d st)) = connected st
   \<and> running (snd (cmd_set_radio env cid d st)) = running st"
  by (simp add: cmd_set_radio_def lib_call_def Let_def split: sum.splits)

lemma running_disconnect: "running (snd (cmd_disconnect env cid st)) = running st"
  by (simp add: cmd_disconnect_def lib_call_def Let_def split: option.splits)

lemma handles_disconnect: "handles_present (snd (cmd_disconnect env cid st))"
  by (simp add: cmd_disconnect_def handles_present_def Let_def)

lemma running_open_session: "running (snd (open_session env cid c st)) = running st"
  by (simp add: open_session_def lib_call_def split: sum.splits)

lemma handles_open_session:
  "\<not> connected st \<Longrightarrow> handles_present (snd (open_session env cid c st))"
  by (simp add: open_session_def lib_call_def handles_present_def split: sum.splits)

lemma running_connect: "running (snd (cmd_connect env cid d st)) = running st"
  by (simp add: cmd_connect_def Let_def running_open_session running_disconnect)

lemma connected_disconnect: "\<not> connected (snd (cmd_disconnect env cid st))"
  by (simp add: cmd_disconnect_def Let_def)

lemma handles_connect:
  "handles_present st \<Longrightarrow> handles_present (snd (cmd_connect env cid d st))"
proof -
  assume inv: "handles_present st"
  define st0 where "st0 = (if connected st then snd (cmd_disconnect env cid st) else st)"
  have c0: "\<not> connected st0"
    unfolding st0_def by (simp add: connected_disconnect)
  then have h0: "handles_present st0"
    by (simp add: handles_present_def)
  show ?thesis
    unfolding cmd_connect_def Let_def st0_def[symmetric]
    using inv h0 handles_open_session[OF c0] by simp
qed

lemma handles_shutdown:
  "handles_present (snd (cmd_shutdown env cid st))"
  by (simp add: cmd_shutdown_def Let_def handles_disconnect) (simp add: handles_present_def)

lemma running_dispatch:
  "cmd \<noteq> JStr ''shutdown'' \<Longrightarrow> running (snd (dispatch env cid cmd d st)) = running st"
  by (simp add: dispatch_def running_connect running_disconnect frame_get_self_info
      frame_get_contacts frame_send_message frame_send_advert frame_login frame_get_status
      frame_set_name frame_set_radio)

lemma handles_frame:
  "connection s' = connection s \<and> meshcore s' = meshcore s \<and> connected s' = connected s
     \<and> running s' = running s
   \<Longrightarrow> handles_present s' = handles_present s"
  by (simp add: handles_present_def)

lemma handles_dispatch:
  "handles_present st \<Longrightarrow> handles_present (snd (dispatch env cid cmd d st))"
  by (simp add: dispatch_def handles_connect handles_disconnect handles_shutdown
      handles_frame[OF frame_get_self_info] handles_frame[OF frame_get_contacts]
      handles_frame[OF frame_send_message] handles_frame[OF frame_send_advert]
      handles_frame[OF frame_login] handles_frame[OF frame_get_status]
      handles_frame[OF frame_set_name] handles_frame[OF frame_set_radio])

lemma snd_handle_command:
  "snd (handle_command env (JObj d) st)
     = snd (dispatch env (dict_get d ''id'' (JStr ''unknown'')) (dict_get d ''cmd'' (JStr '''')) d st)"
  by (simp add: handle_command_def Let_def split: prod.splits sum.splits)

lemma handles_handle_command:
  "handles_present st \<Longrightarrow> handles_present (snd (handle_command env cmd_data st))"
proof (cases cmd_data)
  case (JObj d)
  assume "handles_present st"
  then show ?thesis
    unfolding JObj snd_handle_command by (rule handles_dispatch)
qed (simp_all add: handle_command_def)

lemma handles_run_loop:
  "handles_present st \<Longrightarrow> handles_present (final (run_loop env st evs))"
proof (induction evs arbitrary: st)
  case Nil
  then show ?case by simp
next
  case (Cons ev evs)
  have step: "\<And>cmd_data e st1. handle_command env cmd_data st = (e, st1) \<Longrightarrow> handles_present st1"
    using handles_handle_command[OF Cons.prems] by (metis snd_conv)
  show ?case
    using Cons.prems Cons.IH step
    by (auto simp: emit_def split: read.splits sum.splits exn.splits prod.splits)
qed

section \<open>The loop, one line at a time\<close>

lemma run_loop_stopped:
  "\<not> running st \<Longrightarrow>
     run_loop env st evs = \<lparr>printed = [], final = st, unread = evs, exited = True\<rparr>"
  by (cases evs) simp_all

lemma parses_asD:
  "parses_as env line d \<Longrightarrow>
     line \<noteq> [] \<and> (\<exists>s. decode env line = Inr s \<and> strip env s \<noteq> []
                      \<and> json_loads env (strip env s) = Inr (JObj d))"
  by (cases "decode env line") (simp_all add: parses_as_def)

lemma malformedD:
  "malformed env line m \<Longrightarrow>
     line \<noteq> [] \<and> (\<exists>s. decode env line = Inr s \<and> strip env s \<noteq> []
                      \<and> json_loads env (strip env s) = Inl (JSONDecodeError m))"
  by (cases "decode env line") (simp_all add: malformed_def)

lemma run_loop_request:
  assumes "running st" and "parses_as env line d"
    and "handle_command env (JObj d) st = (Inr response, st1)"
  shows "run_loop env st (Line line # evs) = emit response (run_loop env st1 evs)"
proof -
  from parses_asD[OF assms(2)] obtain s where "line \<noteq> []" "decode env line = Inr s"
    "strip env s \<noteq> []" "json_loads env (strip env s) = Inr (JObj d)" by blast
  with assms(1,3) show ?thesis by simp
qed

lemma run_loop_malformed:
  assumes "running st" and "malformed env line m"
  shows "run_loop env st (Line line # evs)
           = emit (JObj [(''id'', JStr ''unknown''), (''success'', JBool False),
                         (''error'', JStr (''Invalid JSON: '' @ m))])
                  (run_loop env st evs)"
proof -
  from malformedD[OF assms(2)] obtain s where "line \<noteq> []" "decode env line = Inr s"
    "strip env s \<noteq> []" "json_loads env (strip env s) = Inl (JSONDecodeError m)" by blast
  with assms(1) show ?thesis by simp
qed

lemma shutdown_response:
  assumes "dict_get d ''cmd'' (JStr '''') = JStr ''shutdown''"
  shows "handle_command env (JObj d) st
           = (Inr (JObj [(''id'', dict_get d ''id'' (JStr ''unknown'')), (''success'', JBool True),
                         (''data'', JObj [(''shutdown'', JBool True)])]),
              if connected st
              then snd (cmd_disconnect env (dict_get d ''id'' (JStr ''unknown''))
                          (st\<lparr>running := False\<rparr>))
              else st\<lparr>running := False\<rparr>)"
  using assms by (simp add: handle_command_def dispatch_def cmd_shutdown_def Let_def)

lemma run_loop_shutdown:
  assumes "running st" and "parses_as env line d"
    and "dict_get d ''cmd'' (JStr '''') = JStr ''shutdown''"
  shows "run_loop env st (Line line # evs)
           = \<lparr>printed = [JObj [(''id'', dict_get d ''id'' (JStr ''unknown'')),
                               (''success'', JBool True),
                               (''data'', JObj [(''shutdown'', JBool True)])]],
              final = (if connected st
                       then snd (cmd_disconnect env (dict_get d ''id'' (JStr ''unknown''))
                                   (st\<lparr>running := False\<rparr>))
                       else st\<lparr>running := False\<rparr>),
              unread = evs, exited = True\<rparr>"
proof -
  let ?st1 = "if connected st
              then snd (cmd_disconnect env (dict_get d ''id'' (JStr ''unknown''))
                          (st\<lparr>running := False\<rparr>))
              else st\<lparr>running := False\<rparr>"
  have nr: "\<not> running ?st1" by (simp add: running_disconnect)
  from run_loop_request[OF assms(1,2) shutdown_response[OF assms(3)], of evs]
       run_loop_stopped[OF nr, of env evs]
  show ?thesis by (simp add: emit_def)
qed

text \<open>The concrete environment at work.\<close>

lemmas sample_defs =
  sample_env_def sample_strip_def isspace_def sample_loads_def ping_line_def
  shutdown_line_def contacts_line_def broken_line_def

lemma parses_ping:
  "parses_as (sample_env device) ping_line [(''id'', JStr ''1''), (''cmd'', JStr ''ping'')]"
  by (simp add: parses_as_def sample_defs)

lemma parses_shutdown:
  "parses_as (sample_env device) shutdown_line
     [(''id'', JStr ''11''), (''cmd'', JStr ''shutdown'')]"
  by (simp add: parses_as_def sample_defs)

lemma parses_contacts:
  "parses_as (sample_env device) contacts_line
     [(''id'', JStr ''2''), (''cmd'', JStr ''get_contacts'')]"
  by (simp add: parses_as_def sample_defs)

lemma malformed_broken:
  "malformed (sample_env device) broken_line ''Expecting value: line 1 column 1 (char 0)''"
  by (simp add: malformed_def sample_defs)

lemma handle_ping:
  "handle_command env (JObj [(''id'', JStr ''1''), (''cmd'', JStr ''ping'')]) st
     = (Inr (JObj [(''id'', JStr ''1''), (''success'', JBool True), (''data'', JStr ''pong'')]),
        st)"
  by (simp add: handle_command_def dispatch_def dict_get_def)

lemma run_ping:
  "running st \<Longrightarrow> run_loop (sample_env device) st (Line ping_line # evs)
     = emit (JObj [(''id'', JStr ''1''), (''success'', JBool True), (''data'', JStr ''pong'')])
            (run_loop (sample_env device) st evs)"
  by (rule run_loop_request[OF _ parses_ping handle_ping])

section \<open>Malformed lines\<close>

text \<open>
  Claim C2. When the loop, still running, reads a line that is not blank after trimming
  and on which \<open>json.loads\<close> raises \<open>JSONDecodeError\<close>, it prints exactly one line,
  the object with id \<open>"unknown"\<close>, success false and the parser's message, and then
  goes on exactly as it would have without that line: the bridge is unchanged, and what
  is printed, read and decided afterwards is what the loop does on the remaining input.
\<close>

theorem malformed_line_answered:
  assumes "running st" and "malformed env line m"
  shows "printed (run_loop env st (Line line # evs))
           = JObj [(''id'', JStr ''unknown''), (''success'', JBool False),
                   (''error'', JStr (''Invalid JSON: '' @ m))]
             # printed (run_loop env st evs)
         \<and> final (run_loop env st (Line line # evs)) = final (run_loop env st evs)
         \<and> unread (run_loop env st (Line line # evs)) = unread (run_loop env st evs)
         \<and> exited (run_loop env st (Line line # evs)) = exited (run_loop env st evs)"
  using run_loop_malformed[OF assms] by (simp add: emit_def)

theorem malformed_line_answered_witness:
  "running init
   \<and> malformed (sample_env silent_device) broken_line
        ''Expecting value: line 1 column 1 (char 0)''
   \<and> printed (run_loop (sample_env silent_device) init [Line broken_line, Line ping_line])
       = [JObj [(''id'', JStr ''unknown''), (''success'', JBool False),
                (''error'', JStr ''Invalid JSON: Expecting value: line 1 column 1 (char 0)'')],
          JObj [(''id'', JStr ''1''), (''success'', JBool True), (''data'', JStr ''pong'')]]
   \<and> \<not> exited (run_loop (sample_env silent_device) init [Line broken_line, Line ping_line])"
proof -
  have r: "running init" by (simp add: init_def)
  from malformed_line_answered[OF r malformed_broken, of silent_device "[Line ping_line]"]
       run_ping[OF r, of silent_device "[]"] r malformed_broken
  show ?thesis by (simp add: emit_def)
qed

section \<open>Shutdown\<close>

text \<open>
  Claim C7. When the loop, still running, reads a line that parses as a request whose
  command is \<open>shutdown\<close>, it prints the success response with data
  \<open>{shutdown: true}\<close> under the request's id and nothing else, the loop is left, and
  every read after that line is left unread. The bridge is then not running and not
  connected: when it was connected, \<open>cmd_disconnect\<close> has run before the response was
  returned.
\<close>

theorem shutdown_stops_loop:
  assumes "running st" and "parses_as env line d"
    and "dict_get d ''cmd'' (JStr '''') = JStr ''shutdown''"
  shows "run_loop env st (Line line # evs)
           = \<lparr>printed = [JObj [(''id'', dict_get d ''id'' (JStr ''unknown'')),
                               (''success'', JBool True),
                               (''data'', JObj [(''shutdown'', JBool True)])]],
              final = (if connected st
                       then snd (cmd_disconnect env (dict_get d ''id'' (JStr ''unknown''))
                                   (st\<lparr>running := False\<rparr>))
                       else st\<lparr>running := False\<rparr>),
              unread = evs, exited = True\<rparr>
         \<and> \<not> connected (final (run_loop env st (Line line # evs)))
         \<and> \<not> running (final (run_loop env st (Line line # evs)))"
  using run_loop_shutdown[OF assms, of evs]
  by (simp add: running_disconnect connected_disconnect)

theorem shutdown_stops_loop_witness:
  "running sample_connected \<and> connected sample_connected
   \<and> parses_as (sample_env silent_device) shutdown_line
        [(''id'', JStr ''11''), (''cmd'', JStr ''shutdown'')]
   \<and> run_loop (sample_env silent_device) sample_connected [Line shutdown_line, Line ping_line]
       = \<lparr>printed = [JObj [(''id'', JStr ''11''), (''success'', JBool True),
                           (''data'', JObj [(''shutdown'', JBool True)])]],
          final = \<lparr>connection = None, meshcore = None, connected = False, running = False,
                   calls = calls sample_connected @ [Disconnect]\<rparr>,
          unread = [Line ping_line], exited = True\<rparr>"
proof -
  have r: "running sample_connected" and c: "connected sample_connected"
    by (simp_all add: sample_connected_def)
  have d: "dict_get [(''id'', JStr ''11''), (''cmd'', JStr ''shutdown'')] ''cmd'' (JStr '''')
             = JStr ''shutdown''"
    by (simp add: dict_get_def)
  from shutdown_stops_loop[OF r parses_shutdown d, of silent_device "[Line ping_line]"]
       r c parses_shutdown
  show ?thesis
    by (simp add: dict_get_def cmd_disconnect_def lib_call_def sample_connected_def Let_def)
qed

section \<open>One response per request\<close>

text \<open>
  Claim C1, as stated, fails: a \<open>shutdown\<close> request is a request like any other, and
  the requests after it are never read. Two lines that both parse as requests, the
  first one \<open>shutdown\<close>, get one response.
\<close>

theorem shutdown_cuts_responses:
  "parses_as (sample_env silent_device) shutdown_line
     [(''id'', JStr ''11''), (''cmd'', JStr ''shutdown'')]
   \<and> parses_as (sample_env silent_device) ping_line
        [(''id'', JStr ''1''), (''cmd'', JStr ''ping'')]
   \<and> printed (run_loop (sample_env silent_device) init [Line shutdown_line, Line ping_line])
       = [JObj [(''id'', JStr ''11''), (''success'', JBool True),
                (''data'', JObj [(''shutdown'', JBool True)])]]
   \<and> length (printed (run_loop (sample_env silent_device) init
                [Line shutdown_line, Line ping_line]))
       \<noteq> length [Line shutdown_line, Line ping_line]"
proof -
  have r: "running init" and nc: "\<not> connected init"
    by (simp_all add: init_def)
  have d: "dict_get [(''id'', JStr ''11''), (''cmd'', JStr ''shutdown'')] ''cmd'' (JStr '''')
             = JStr ''shutdown''"
    by (simp add: dict_get_def)
  from run_loop_shutdown[OF r parses_shutdown d, of silent_device "[Line ping_line]"] nc
  have "printed (run_loop (sample_env silent_device) init [Line shutdown_line, Line ping_line])
          = [JObj [(''id'', JStr ''11''), (''success'', JBool True),
                   (''data'', JObj [(''shutdown'', JBool True)])]]"
    by (simp add: dict_get_def)
  then show ?thesis using parses_shutdown parses_ping by simp
qed

lemma until_shutdown_all:
  "\<forall>(line, d) \<in> set rs. dict_get d ''cmd'' (JStr '''') \<noteq> JStr ''shutdown''
     \<Longrightarrow> until_shutdown rs = rs"
  by (induction rs) auto

lemma run_loop_pause:
  "running st \<Longrightarrow> run_loop env st (TimeoutError # evs) = run_loop env st evs"
  by simp

lemma run_loop_answers:
  assumes "running st" and "parses_as env line d"
  shows "\<exists>response st1.
           run_loop env st (Line line # evs) = emit response (run_loop env st1 evs)
           \<and> obj_field response ''id'' = Some (dict_get d ''id'' (JStr ''unknown''))
           \<and> (dict_get d ''cmd'' (JStr '''') \<noteq> JStr ''shutdown'' \<longrightarrow> running st1)"
proof -
  from handle_command_answers[of env d st] obtain response
    where r: "fst (handle_command env (JObj d) st) = Inr response"
      and rid: "obj_field response ''id'' = Some (dict_get d ''id'' (JStr ''unknown''))"
    by blast
  define st1 where "st1 = snd (handle_command env (JObj d) st)"
  from r have hc: "handle_command env (JObj d) st = (Inr response, st1)"
    by (simp add: st1_def prod_eq_iff)
  have "running st1" if "dict_get d ''cmd'' (JStr '''') \<noteq> JStr ''shutdown''"
    unfolding st1_def snd_handle_command using running_dispatch[OF that] assms(1) by simp
  with run_loop_request[OF assms hc, of evs] rid show ?thesis by blast
qed

lemma ids_in_request_order:
  assumes "running st" and "\<forall>(line, d) \<in> set (requests xs). parses_as env line d"
  shows "map (\<lambda>response. obj_field response ''id'')
             (printed (run_loop env st (map arrival_read xs)))
           = map (\<lambda>(line, d). Some (dict_get d ''id'' (JStr ''unknown'')))
                 (until_shutdown (requests xs))"
  using assms
proof (induction xs arbitrary: st)
  case Nil
  then show ?case by simp
next
  case (Cons x xs)
  show ?case
  proof (cases x)
    case Pause
    with Cons show ?thesis by simp
  next
    case (Request line d)
    with Cons.prems(2) have p: "parses_as env line d"
      and rest: "\<forall>(line, d) \<in> set (requests xs). parses_as env line d"
      by simp_all
    show ?thesis
    proof (cases "dict_get d ''cmd'' (JStr '''') = JStr ''shutdown''")
      case True
      from run_loop_shutdown[OF Cons.prems(1) p True, of "map arrival_read xs"] True Request
      show ?thesis by (simp add: obj_field_def)
    next
      case False
      from run_loop_answers[OF Cons.prems(1) p, of "map arrival_read xs"] False
      obtain response st1
        where step: "run_loop env st (Line line # map arrival_read xs)
                       = emit response (run_loop env st1 (map arrival_read xs))"
          and rid: "obj_field response ''id'' = Some (dict_get d ''id'' (JStr ''unknown''))"
          and run1: "running st1"
        by blast
      from Cons.IH[OF run1 rest] step rid False Request
      show ?thesis by (simp add: emit_def)
    qed
  qed
qed

lemma waiting_after_requests:
  assumes "running st" and "\<forall>(line, d) \<in> set (requests xs). parses_as env line d"
    and "\<forall>(line, d) \<in> set (requests xs). dict_get d ''cmd'' (JStr '''') \<noteq> JStr ''shutdown''"
  shows "\<not> exited (run_loop env st (map arrival_read xs))
       \<and> unread (run_loop env st (map arrival_read xs)) = []"
  using assms
proof (induction xs arbitrary: st)
  case Nil
  then show ?case by simp
next
  case (Cons x xs)
  show ?case
  proof (cases x)
    case Pause
    with Cons show ?thesis by simp
  next
    case (Request line d)
    with Cons.prems(2,3) have p: "parses_as env line d"
      and ns: "dict_get d ''cmd'' (JStr '''') \<noteq> JStr ''shutdown''"
      and rest: "\<forall>(line, d) \<in> set (requests xs). parses_as env line d"
        "\<forall>(line, d) \<in> set (requests xs). dict_get d ''cmd'' (JStr '''') \<noteq> JStr ''shutdown''"
      by simp_all
    from run_loop_answers[OF Cons.prems(1) p, of "map arrival_read xs"] ns
    obtain response st1
      where step: "run_loop env st (Line line # map arrival_read xs)
                     = emit response (run_loop env st1 (map arrival_read xs))"
        and run1: "running st1"
      by blast
    from Cons.IH[OF run1 rest] step Request
    show ?thesis by (simp add: emit_def)
  qed
qed

lemma exited_after_shutdown:
  assumes "running st" and "\<forall>(line, d) \<in> set (requests xs). parses_as env line d"
    and "\<exists>(line, d) \<in> set (requests xs). dict_get d ''cmd'' (JStr '''') = JStr ''shutdown''"
  shows "exited (run_loop env st (map arrival_read xs))"
  using assms
proof (induction xs arbitrary: st)
  case Nil
  then show ?case by simp
next
  case (Cons x xs)
  show ?case
  proof (cases x)
    case Pause
    with Cons show ?thesis by simp
  next
    case (Request line d)
    with Cons.prems(2) have p: "parses_as env line d"
      and rest: "\<forall>(line, d) \<in> set (requests xs). parses_as env line d"
      by simp_all
    show ?thesis
    proof (cases "dict_get d ''cmd'' (JStr '''') = JStr ''shutdown''")
      case True
      from run_loop_shutdown[OF Cons.prems(1) p True, of "map arrival_read xs"] Request
      show ?thesis by simp
    next
      case False
      with Cons.prems(3) Request
      have later: "\<exists>(line, d) \<in> set (requests xs).
                     dict_get d ''cmd'' (JStr '''') = JStr ''shutdown''"
        by simp
      from run_loop_answers[OF Cons.prems(1) p, of "map arrival_read xs"] False
      obtain response st1
        where step: "run_loop env st (Line line # map arrival_read xs)
                       = emit response (run_loop env st1 (map arrival_read xs))"
          and run1: "running st1"
        by blast
      from Cons.IH[OF run1 rest later] step Request
      show ?thesis by (simp add: emit_def)
    qed
  qed
qed

lemma unread_after_shutdown:
  assumes "running st" and "\<forall>(line, d) \<in> set (requests xs). parses_as env line d"
  shows "unread (run_loop env st (map arrival_read xs)) = map arrival_read (after_shutdown xs)"
  using assms
proof (induction xs arbitrary: st)
  case Nil
  then show ?case by simp
next
  case (Cons x xs)
  show ?case
  proof (cases x)
    case Pause
    with Cons show ?thesis by simp
  next
    case (Request line d)
    with Cons.prems(2) have p: "parses_as env line d"
      and rest: "\<forall>(line, d) \<in> set (requests xs). parses_as env line d"
      by simp_all
    show ?thesis
    proof (cases "dict_get d ''cmd'' (JStr '''') = JStr ''shutdown''")
      case True
      from run_loop_shutdown[OF Cons.prems(1) p True, of "map arrival_read xs"] True Request
      show ?thesis by simp
    next
      case False
      from run_loop_answers[OF Cons.prems(1) p, of "map arrival_read xs"] False
      obtain response st1
        where step: "run_loop env st (Line line # map arrival_read xs)
                       = emit response (run_loop env st1 (map arrival_read xs))"
          and run1: "running st1"
        by blast
      from Cons.IH[OF run1 rest] step False Request
      show ?thesis by (simp add: emit_def)
    qed
  qed
qed

text \<open>
  Claim C1, amended. Let the loop, still running, be sent \<open>N\<close> lines each of which
  parses as a request, with any number of read timeouts before, between and after them.
  Then it prints one response for each request up to and including the first
  \<open>shutdown\<close> request, and for nothing else, and the ids of the responses are,
  position by position, the ids of those requests (\<open>"unknown"\<close> for a request
  without an \<open>id\<close> field). What arrives after the first \<open>shutdown\<close> request
  is left unread. When none of the requests is a \<open>shutdown\<close>, the responses are
  all \<open>N\<close>, the loop is still waiting afterwards and nothing is left unread; when one
  is, the loop has been left.
\<close>

theorem responses_in_request_order:
  assumes "running st" and "\<forall>(line, d) \<in> set (requests xs). parses_as env line d"
  shows "map (\<lambda>response. obj_field response ''id'')
             (printed (run_loop env st (map arrival_read xs)))
           = map (\<lambda>(line, d). Some (dict_get d ''id'' (JStr ''unknown'')))
                 (until_shutdown (requests xs))
       \<and> length (printed (run_loop env st (map arrival_read xs)))
           = length (until_shutdown (requests xs))
       \<and> unread (run_loop env st (map arrival_read xs)) = map arrival_read (after_shutdown xs)
       \<and> ((\<forall>(line, d) \<in> set (requests xs). dict_get d ''cmd'' (JStr '''') \<noteq> JStr ''shutdown'')
            \<longrightarrow> length (printed (run_loop env st (map arrival_read xs))) = length (requests xs)
                \<and> map (\<lambda>response. obj_field response ''id'')
                       (printed (run_loop env st (map arrival_read xs)))
                    = map (\<lambda>(line, d). Some (dict_get d ''id'' (JStr ''unknown''))) (requests xs)
                \<and> \<not> exited (run_loop env st (map arrival_read xs))
                \<and> unread (run_loop env st (map arrival_read xs)) = [])
       \<and> ((\<exists>(line, d) \<in> set (requests xs). dict_get d ''cmd'' (JStr '''') = JStr ''shutdown'')
            \<longrightarrow> exited (run_loop env st (map arrival_read xs)))"
proof -
  note ids = ids_in_request_order[OF assms]
  from ids have len: "length (printed (run_loop env st (map arrival_read xs)))
           = length (until_shutdown (requests xs))"
    by (rule map_eq_imp_length_eq)
  from ids len until_shutdown_all[of "requests xs"] waiting_after_requests[OF assms]
       exited_after_shutdown[OF assms] unread_after_shutdown[OF assms]
  show ?thesis by auto
qed

theorem responses_in_request_order_witness:
  "running init
   \<and> parses_as (sample_env silent_device) ping_line
        [(''id'', JStr ''1''), (''cmd'', JStr ''ping'')]
   \<and> parses_as (sample_env silent_device) contacts_line
        [(''id'', JStr ''2''), (''cmd'', JStr ''get_contacts'')]
   \<and> parses_as (sample_env silent_device) shutdown_line
        [(''id'', JStr ''11''), (''cmd'', JStr ''shutdown'')]
   \<and> map (\<lambda>response. obj_field response ''id'')
        (printed (run_loop (sample_env silent_device) init
           [Line ping_line, TimeoutError, Line contacts_line]))
       = [Some (JStr ''1''), Some (JStr ''2'')]
   \<and> \<not> exited (run_loop (sample_env silent_device) init
           [Line ping_line, TimeoutError, Line contacts_line])
   \<and> map (\<lambda>response. obj_field response ''id'')
        (printed (run_loop (sample_env silent_device) init
           [TimeoutError, Line ping_line, Line shutdown_line, Line contacts_line]))
       = [Some (JStr ''1''), Some (JStr ''11'')]
   \<and> exited (run_loop (sample_env silent_device) init
           [TimeoutError, Line ping_line, Line shutdown_line, Line contacts_line])
   \<and> unread (run_loop (sample_env silent_device) init
           [TimeoutError, Line ping_line, Line shutdown_line, Line contacts_line])
       = [Line contacts_line]"
proof -
  let ?ping = "[(''id'', JStr ''1''), (''cmd'', JStr ''ping'')]"
  let ?contacts = "[(''id'', JStr ''2''), (''cmd'', JStr ''get_contacts'')]"
  let ?shutdown = "[(''id'', JStr ''11''), (''cmd'', JStr ''shutdown'')]"
  let ?xs = "[Request ping_line ?ping, Pause, Request contacts_line ?contacts]"
  let ?ys = "[Pause, Request ping_line ?ping, Request shutdown_line ?shutdown,
              Request contacts_line ?contacts]"
  have r: "running init" by (simp add: init_def)
  have hx: "\<forall>(line, d) \<in> set (requests ?xs). parses_as (sample_env silent_device) line d"
    using parses_ping parses_contacts by simp
  have hy: "\<forall>(line, d) \<in> set (requests ?ys). parses_as (sample_env silent_device) line d"
    using parses_ping parses_contacts parses_shutdown by simp
  from responses_in_request_order[OF r hx] responses_in_request_order[OF r hy]
       r parses_ping parses_contacts parses_shutdown
  show ?thesis by (simp add: dict_get_def)
qed

section \<open>The handles of a connected bridge\<close>

text \<open>
  Claim C10. The invariant \<open>handles_present\<close> (a connected bridge holds a meshcore
  handle and a connection handle) holds of the bridge as \<open>__init__\<close> makes it, is
  kept by \<open>handle_command\<close> on every decoded line, whatever the command (connect in
  all its outcomes, disconnect, shutdown, the guarded commands, ping, unknown names) and
  whatever the library does, and is kept by the whole of \<open>run\<close>.
\<close>

theorem handles_present_invariant:
  "handles_present init
   \<and> (handles_present st \<longrightarrow> handles_present (snd (handle_command env cmd_data st)))
   \<and> (handles_present st \<longrightarrow> handles_present (final (run env st evs)))"
proof -
  have a: "handles_present init"
    by (simp add: init_def handles_present_def)
  have c: "handles_present (final (run env st evs))" if "handles_present st"
    using handles_run_loop[OF that, of env evs]
    by (simp add: run_def Let_def emit_def handles_disconnect)
  from a c handles_handle_command show ?thesis by blast
qed

theorem handles_present_invariant_witness:
  "handles_present sample_connected
   \<and> handles_present (snd (handle_command (sample_env sample_device)
        (JObj [(''id'', JStr ''1''), (''cmd'', JStr ''connect'')]) sample_connected))
   \<and> connected (snd (handle_command (sample_env sample_device)
        (JObj [(''id'', JStr ''1''), (''cmd'', JStr ''connect'')]) sample_connected))
   \<and> handles_present (final (run (sample_env sample_device) sample_connected
        [Line ping_line, Line []]))"
proof -
  have h: "handles_present sample_connected"
    by (simp add: handles_present_def sample_connected_def)
  have c: "connected (snd (handle_command (sample_env sample_device)
        (JObj [(''id'', JStr ''1''), (''cmd'', JStr ''connect'')]) sample_connected))"
    by (simp add: handle_command_def dispatch_def cmd_connect_def cmd_disconnect_def
        open_session_def lib_call_def sample_env_def sample_device_def sample_connected_def
        serialize_self_info_def py_or_def dict_get_def Let_def)
  from handles_present_invariant[of sample_connected "sample_env sample_device"
         "JObj [(''id'', JStr ''1''), (''cmd'', JStr ''connect'')]" "[Line ping_line, Line []]"]
       h c
  show ?thesis by simp
qed

section \<open>Coordinates\<close>

lemma self_info_no_zero:
  "serialize_self_info info = Inr out \<Longrightarrow> no_zero_coordinate out"
  by (cases info)
     (auto simp: serialize_self_info_def no_zero_coordinate_def obj_field_def Let_def)

lemma contact_no_zero:
  "contact_record key contact = Inr out \<Longrightarrow> no_zero_coordinate out"
  by (cases contact)
     (auto simp: contact_record_def no_zero_coordinate_def obj_field_def Let_def)

lemma contacts_loop_no_zero:
  "contacts_loop items acc = Inr recs \<Longrightarrow> \<forall>r \<in> set acc. no_zero_coordinate r
     \<Longrightarrow> \<forall>r \<in> set recs. no_zero_coordinate r"
proof (induction items acc rule: contacts_loop.induct)
  case (1 contacts)
  then show ?case by simp
next
  case (2 key contact items contacts)
  then show ?case
    by (auto split: sum.splits dest: contact_no_zero)
qed

lemma get_contacts_no_zero:
  assumes "fst (cmd_get_contacts env cid st) = Inr response"
    and "obj_field response ''data'' = Some (JArr recs)"
  shows "\<forall>r \<in> set recs. no_zero_coordinate r"
  using assms
  by (auto simp: cmd_get_contacts_def lib_call_def obj_field_def not_connected_def
      split: if_splits sum.splits json.splits dest!: contacts_loop_no_zero)

lemma py_or_zero_or_absent:
  "zero_or_absent (map_of d k) \<Longrightarrow> \<not> truthy b \<Longrightarrow> b = JNull \<or> eq_zero b
     \<Longrightarrow> \<not> truthy (py_or b (dict_get d k JNull))
         \<and> (py_or b (dict_get d k JNull) = JNull \<or> eq_zero (py_or b (dict_get d k JNull)))"
  by (cases "map_of d k"; cases "the (map_of d k)" rule: eq_zero.cases)
     (auto simp: zero_or_absent_def dict_get_def py_or_def)

lemma first_zero_or_absent:
  "zero_or_absent (map_of d k)
     \<Longrightarrow> \<not> truthy (dict_get d k JNull)
         \<and> (dict_get d k JNull = JNull \<or> eq_zero (dict_get d k JNull))"
  by (cases "map_of d k"; cases "the (map_of d k)" rule: eq_zero.cases)
     (auto simp: zero_or_absent_def dict_get_def)

lemma self_zero:
  assumes "zero_or_absent (map_of i a)" and "zero_or_absent (map_of i b)"
  shows "(let v = py_or (dict_get i a JNull) (dict_get i b JNull)
          in if eq_zero v then JNull else v) = JNull"
  using py_or_zero_or_absent[OF assms(2), of "dict_get i a JNull"]
        first_zero_or_absent[OF assms(1)]
  by (auto simp: Let_def)

lemma contact_zero:
  assumes "zero_or_absent (map_of c a)" and "zero_or_absent (map_of c b)"
    and "zero_or_absent (map_of c k)"
  shows "(let v = py_or (py_or (dict_get c a JNull) (dict_get c b JNull)) (dict_get c k JNull)
          in if eq_zero v then JNull else v) = JNull"
proof -
  from py_or_zero_or_absent[OF assms(2), of "dict_get c a JNull"]
       first_zero_or_absent[OF assms(1)]
  have "\<not> truthy (py_or (dict_get c a JNull) (dict_get c b JNull))
        \<and> (py_or (dict_get c a JNull) (dict_get c b JNull) = JNull
            \<or> eq_zero (py_or (dict_get c a JNull) (dict_get c b JNull)))"
    by blast
  with py_or_zero_or_absent[OF assms(3),
         of "py_or (dict_get c a JNull) (dict_get c b JNull)"]
  show ?thesis by (auto simp: Let_def)
qed

lemma truthy_not_zero: "truthy v \<Longrightarrow> \<not> eq_zero v"
  by (cases v rule: eq_zero.cases) auto

lemma pass_first:
  "map_of d k = Some v \<Longrightarrow> truthy v \<Longrightarrow>
     (let w = py_or (dict_get d k JNull) x in if eq_zero w then JNull else w) = v"
  by (simp add: dict_get_def py_or_def truthy_not_zero)

lemma pass_first3:
  "map_of d k = Some v \<Longrightarrow> truthy v \<Longrightarrow>
     (let w = py_or (py_or (dict_get d k JNull) x) y in if eq_zero w then JNull else w) = v"
  by (simp add: dict_get_def py_or_def truthy_not_zero)

lemma self_info_coordinates:
  "\<exists>kv. serialize_self_info (JObj i) = Inr (JObj kv)
     \<and> map_of kv ''latitude''
         = Some (let v = py_or (dict_get i ''adv_lat'' JNull) (dict_get i ''latitude'' JNull)
                 in if eq_zero v then JNull else v)
     \<and> map_of kv ''longitude''
         = Some (let v = py_or (dict_get i ''adv_lon'' JNull) (dict_get i ''longitude'' JNull)
                 in if eq_zero v then JNull else v)"
  by (simp add: serialize_self_info_def Let_def)

lemma contact_coordinates:
  "\<exists>kv. contact_record key (JObj c) = Inr (JObj kv)
     \<and> map_of kv ''latitude''
         = Some (let v = py_or (py_or (dict_get c ''adv_lat'' JNull) (dict_get c ''latitude'' JNull))
                               (dict_get c ''lat'' JNull)
                 in if eq_zero v then JNull else v)
     \<and> map_of kv ''longitude''
         = Some (let v = py_or (py_or (dict_get c ''adv_lon'' JNull) (dict_get c ''longitude'' JNull))
                               (dict_get c ''lon'' JNull)
                 in if eq_zero v then JNull else v)"
  by (simp add: contact_record_def Let_def)

text \<open>
  Claim C4. No serialized self-identity and no serialized contact carries a coordinate
  that compares equal to \<open>0.0\<close>, neither as \<open>_serialize_self_info\<close> and the loop of
  \<open>cmd_get_contacts\<close> build one record, nor in the list that \<open>cmd_get_contacts\<close>
  returns. When every coordinate field the device record holds is missing, \<open>None\<close> or
  zero, as for a reported (0.0, 0.0), both latitude and longitude are emitted as
  \<open>None\<close>. When the device reports an advertised latitude and longitude that are
  true values, as 12.5 and -3.25 are, both are emitted unchanged. All three hold for
  self-identity and for contacts alike.
\<close>

theorem gps_normalization:
  "(\<forall>out. serialize_self_info info = Inr out \<longrightarrow> no_zero_coordinate out)
   \<and> (\<forall>out. contact_record key contact = Inr out \<longrightarrow> no_zero_coordinate out)
   \<and> (\<forall>response recs.
         fst (cmd_get_contacts env cmd_id st) = Inr response
         \<and> obj_field response ''data'' = Some (JArr recs)
         \<longrightarrow> (\<forall>r \<in> set recs. no_zero_coordinate r))
   \<and> (zero_or_absent (map_of i ''adv_lat'') \<and> zero_or_absent (map_of i ''latitude'')
        \<and> zero_or_absent (map_of i ''adv_lon'') \<and> zero_or_absent (map_of i ''longitude'')
       \<longrightarrow> (\<exists>out. serialize_self_info (JObj i) = Inr out
              \<and> obj_field out ''latitude'' = Some JNull
              \<and> obj_field out ''longitude'' = Some JNull))
   \<and> (zero_or_absent (map_of c ''adv_lat'') \<and> zero_or_absent (map_of c ''latitude'')
        \<and> zero_or_absent (map_of c ''lat'')
        \<and> zero_or_absent (map_of c ''adv_lon'') \<and> zero_or_absent (map_of c ''longitude'')
        \<and> zero_or_absent (map_of c ''lon'')
       \<longrightarrow> (\<exists>out. contact_record key (JObj c) = Inr out
              \<and> obj_field out ''latitude'' = Some JNull
              \<and> obj_field out ''longitude'' = Some JNull))
   \<and> (map_of i ''adv_lat'' = Some lat \<and> truthy lat
        \<and> map_of i ''adv_lon'' = Some lon \<and> truthy lon
       \<longrightarrow> (\<exists>out. serialize_self_info (JObj i) = Inr out
              \<and> obj_field out ''latitude'' = Some lat
              \<and> obj_field out ''longitude'' = Some lon))
   \<and> (map_of c ''adv_lat'' = Some lat \<and> truthy lat
        \<and> map_of c ''adv_lon'' = Some lon \<and> truthy lon
       \<longrightarrow> (\<exists>out. contact_record key (JObj c) = Inr out
              \<and> obj_field out ''latitude'' = Some lat
              \<and> obj_field out ''longitude'' = Some lon))"
proof -
  have p1: "\<forall>out. serialize_self_info info = Inr out \<longrightarrow> no_zero_coordinate out"
    using self_info_no_zero by blast
  have p2: "\<forall>out. contact_record key contact = Inr out \<longrightarrow> no_zero_coordinate out"
    using contact_no_zero by blast
  have p3: "\<forall>response recs.
         fst (cmd_get_contacts env cmd_id st) = Inr response
         \<and> obj_field response ''data'' = Some (JArr recs)
         \<longrightarrow> (\<forall>r \<in> set recs. no_zero_coordinate r)"
    using get_contacts_no_zero by blast
  obtain si where si: "serialize_self_info (JObj i) = Inr (JObj si)"
    "map_of si ''latitude''
         = Some (let v = py_or (dict_get i ''adv_lat'' JNull) (dict_get i ''latitude'' JNull)
                 in if eq_zero v then JNull else v)"
    "map_of si ''longitude''
         = Some (let v = py_or (dict_get i ''adv_lon'' JNull) (dict_get i ''longitude'' JNull)
                 in if eq_zero v then JNull else v)"
    using self_info_coordinates[of i] by blast
  obtain cr where cr: "contact_record key (JObj c) = Inr (JObj cr)"
    "map_of cr ''latitude''
         = Some (let v = py_or (py_or (dict_get c ''adv_lat'' JNull) (dict_get c ''latitude'' JNull))
                               (dict_get c ''lat'' JNull)
                 in if eq_zero v then JNull else v)"
    "map_of cr ''longitude''
         = Some (let v = py_or (py_or (dict_get c ''adv_lon'' JNull) (dict_get c ''longitude'' JNull))
                               (dict_get c ''lon'' JNull)
                 in if eq_zero v then JNull else v)"
    using contact_coordinates[of key c] by blast
  have p4: "zero_or_absent (map_of i ''adv_lat'') \<and> zero_or_absent (map_of i ''latitude'')
        \<and> zero_or_absent (map_of i ''adv_lon'') \<and> zero_or_absent (map_of i ''longitude'')
       \<longrightarrow> (\<exists>out. serialize_self_info (JObj i) = Inr out
              \<and> obj_field out ''latitude'' = Some JNull
              \<and> obj_field out ''longitude'' = Some JNull)"
    using si by (simp add: obj_field_def self_zero)
  have p5: "zero_or_absent (map_of c ''adv_lat'') \<and> zero_or_absent (map_of c ''latitude'')
        \<and> zero_or_absent (map_of c ''lat'')
        \<and> zero_or_absent (map_of c ''adv_lon'') \<and> zero_or_absent (map_of c ''longitude'')
        \<and> zero_or_absent (map_of c ''lon'')
       \<longrightarrow> (\<exists>out. contact_record key (JObj c) = Inr out
              \<and> obj_field out ''latitude'' = Some JNull
              \<and> obj_field out ''longitude'' = Some JNull)"
    using cr by (simp add: obj_field_def contact_zero)
  have p6: "map_of i ''adv_lat'' = Some lat \<and> truthy lat
        \<and> map_of i ''adv_lon'' = Some lon \<and> truthy lon
       \<longrightarrow> (\<exists>out. serialize_self_info (JObj i) = Inr out
              \<and> obj_field out ''latitude'' = Some lat
              \<and> obj_field out ''longitude'' = Some lon)"
    using si by (simp add: obj_field_def pass_first)
  have p7: "map_of c ''adv_lat'' = Some lat \<and> truthy lat
        \<and> map_of c ''adv_lon'' = Some lon \<and> truthy lon
       \<longrightarrow> (\<exists>out. contact_record key (JObj c) = Inr out
              \<and> obj_field out ''latitude'' = Some lat
              \<and> obj_field out ''longitude'' = Some lon)"
    using cr by (simp add: obj_field_def pass_first3)
  from p1 p2 p3 p4 p5 p6 p7 show ?thesis by blast
qed
theorem gps_normalization_witness:
  "zero_or_absent (map_of [(''name'', JStr ''node''), (''adv_lat'', JFloat (Finite 0)),
                           (''adv_lon'', JFloat (Finite 0))] ''adv_lat'')
   \<and> zero_or_absent (map_of [(''name'', JStr ''node''), (''adv_lat'', JFloat (Finite 0)),
                           (''adv_lon'', JFloat (Finite 0))] ''latitude'')
   \<and> zero_or_absent (map_of [(''name'', JStr ''node''), (''adv_lat'', JFloat (Finite 0)),
                           (''adv_lon'', JFloat (Finite 0))] ''adv_lon'')
   \<and> zero_or_absent (map_of [(''name'', JStr ''node''), (''adv_lat'', JFloat (Finite 0)),
                           (''adv_lon'', JFloat (Finite 0))] ''longitude'')
   \<and> (\<exists>out. serialize_self_info (JObj [(''name'', JStr ''node''),
                  (''adv_lat'', JFloat (Finite 0)), (''adv_lon'', JFloat (Finite 0))]) = Inr out
          \<and> obj_field out ''latitude'' = Some JNull
          \<and> obj_field out ''longitude'' = Some JNull)
   \<and> truthy (JFloat (Finite 12.5)) \<and> truthy (JFloat (Finite (- 3.25)))
   \<and> (\<exists>out. contact_record ''ab'' (JObj [(''adv_name'', JStr ''peer''),
                  (''adv_lat'', JFloat (Finite 12.5)),
                  (''adv_lon'', JFloat (Finite (- 3.25)))]) = Inr out
          \<and> obj_field out ''latitude'' = Some (JFloat (Finite 12.5))
          \<and> obj_field out ''longitude'' = Some (JFloat (Finite (- 3.25))))
   \<and> fst (cmd_get_contacts (sample_env sample_device) (JStr ''4'') sample_connected)
       = Inr (JObj [(''id'', JStr ''4''), (''success'', JBool True),
           (''data'', JArr [
              JObj [(''public_key'', JStr ''ab''), (''adv_name'', JStr ''peer''),
                    (''name'', JStr ''''), (''rssi'', JNull), (''snr'', JNull),
                    (''adv_type'', JNull), (''latitude'', JFloat (Finite 12.5)),
                    (''longitude'', JFloat (Finite (- 3.25)))],
              JObj [(''public_key'', JStr ''cd''), (''adv_name'', JStr ''''),
                    (''name'', JStr ''''), (''rssi'', JNull), (''snr'', JNull),
                    (''adv_type'', JNull), (''latitude'', JNull), (''longitude'', JNull)]])])
   \<and> no_zero_coordinate
        (JObj [(''public_key'', JStr ''cd''), (''adv_name'', JStr ''''),
               (''name'', JStr ''''), (''rssi'', JNull), (''snr'', JNull),
               (''adv_type'', JNull), (''latitude'', JNull), (''longitude'', JNull)])"
proof -
  let ?i = "[(''name'', JStr ''node''), (''adv_lat'', JFloat (Finite 0)),
             (''adv_lon'', JFloat (Finite 0))]"
  let ?c = "[(''adv_name'', JStr ''peer''), (''adv_lat'', JFloat (Finite 12.5)),
             (''adv_lon'', JFloat (Finite (- 3.25)))]"
  let ?cd = "JObj [(''public_key'', JStr ''cd''), (''adv_name'', JStr ''''),
               (''name'', JStr ''''), (''rssi'', JNull), (''snr'', JNull),
               (''adv_type'', JNull), (''latitude'', JNull), (''longitude'', JNull)]"
  let ?ab = "JObj [(''public_key'', JStr ''ab''), (''adv_name'', JStr ''peer''),
                    (''name'', JStr ''''), (''rssi'', JNull), (''snr'', JNull),
                    (''adv_type'', JNull), (''latitude'', JFloat (Finite 12.5)),
                    (''longitude'', JFloat (Finite (- 3.25)))]"
  let ?resp = "JObj [(''id'', JStr ''4''), (''success'', JBool True), (''data'', JArr [?ab, ?cd])]"
  have z: "zero_or_absent (map_of ?i ''adv_lat'')" "zero_or_absent (map_of ?i ''latitude'')"
    "zero_or_absent (map_of ?i ''adv_lon'')" "zero_or_absent (map_of ?i ''longitude'')"
    by (simp_all add: zero_or_absent_def)
  have t: "map_of ?c ''adv_lat'' = Some (JFloat (Finite 12.5))" "truthy (JFloat (Finite 12.5))"
    "map_of ?c ''adv_lon'' = Some (JFloat (Finite (- 3.25)))" "truthy (JFloat (Finite (- 3.25)))"
    by simp_all
  have run: "fst (cmd_get_contacts (sample_env sample_device) (JStr ''4'') sample_connected)
               = Inr ?resp"
    by (simp add: cmd_get_contacts_def lib_call_def sample_env_def sample_device_def
        sample_connected_def contact_record_def py_or_def dict_get_def Let_def)
  have data: "obj_field ?resp ''data'' = Some (JArr [?ab, ?cd])"
    by (simp add: obj_field_def)
  note g = gps_normalization[of JNull "''ab''" JNull "sample_env sample_device" "JStr ''4''"
      sample_connected ?i ?c "JFloat (Finite 12.5)" "JFloat (Finite (- 3.25))"]
  from g z have a: "\<exists>out. serialize_self_info (JObj ?i) = Inr out
          \<and> obj_field out ''latitude'' = Some JNull
          \<and> obj_field out ''longitude'' = Some JNull"
    by blast
  from g t have b: "\<exists>out. contact_record ''ab'' (JObj ?c) = Inr out
          \<and> obj_field out ''latitude'' = Some (JFloat (Finite 12.5))
          \<and> obj_field out ''longitude'' = Some (JFloat (Finite (- 3.25)))"
    by blast
  from g run data have "\<forall>r \<in> set [?ab, ?cd]. no_zero_coordinate r"
    by blast
  then have n: "no_zero_coordinate ?cd"
    by simp
  from z t a b run n show ?thesis by blast
qed

section \<open>Status of a remote node\<close>

text \<open>
  Claim C8, as stated, fails: the request's \<open>timeout\<close> is never read. A
  \<open>get_status\<close> request that asks for a timeout of 30 reaches the library with the
  wait bound 10.
\<close>

theorem get_status_ignores_request_timeout:
  "connected sample_connected
   \<and> dict_get [(''id'', JStr ''8''), (''cmd'', JStr ''get_status''),
               (''public_key'', JStr ''ab''), (''timeout'', JInt 30)] ''timeout'' JNull = JInt 30
   \<and> calls (snd (cmd_get_status (sample_env silent_device) (JStr ''8'')
        [(''id'', JStr ''8''), (''cmd'', JStr ''get_status''),
         (''public_key'', JStr ''ab''), (''timeout'', JInt 30)] sample_connected))
       = calls sample_connected @ [Req_status_sync (JStr ''ab'') (JInt 10)]
   \<and> Req_status_sync (JStr ''ab'') (JInt 30)
       \<notin> set (calls (snd (cmd_get_status (sample_env silent_device) (JStr ''8'')
             [(''id'', JStr ''8''), (''cmd'', JStr ''get_status''),
              (''public_key'', JStr ''ab''), (''timeout'', JInt 30)] sample_connected)))"
  by (simp add: cmd_get_status_def lib_call_def sample_env_def silent_device_def
      sample_connected_def dict_get_def Let_def)

text \<open>
  Claim C8, amended. For every \<open>get_status\<close> invocation on a connected bridge, the
  status request is the one library call made, for the request's \<open>public_key\<close> and
  with the fixed wait bound 10, whatever the request says. If the library returns
  nothing (\<open>None\<close>, or any value that is not true), the result is the failure
  response \<open>No status received\<close>. If it returns a non-empty dict, the result is the
  success response with battery, uptime, tx power and the four radio parameters taken
  from it.
\<close>

theorem get_status_timeout_is_ten:
  assumes "connected st" and "meshcore st \<noteq> None"
  shows "calls (snd (cmd_get_status env cmd_id d st))
           = calls st @ [Req_status_sync (dict_get d ''public_key'' (JStr '''')) (JInt 10)]
       \<and> (\<forall>status.
             reply env (calls st @ [Req_status_sync (dict_get d ''public_key'' (JStr ''''))
                                      (JInt 10)]) = Inr status
             \<and> \<not> truthy status
             \<longrightarrow> fst (cmd_get_status env cmd_id d st)
                   = Inr (JObj [(''id'', cmd_id), (''success'', JBool False),
                                (''error'', JStr ''No status received'')]))
       \<and> (\<forall>s.
             reply env (calls st @ [Req_status_sync (dict_get d ''public_key'' (JStr ''''))
                                      (JInt 10)]) = Inr (JObj s)
             \<and> s \<noteq> []
             \<longrightarrow> fst (cmd_get_status env cmd_id d st)
                   = Inr (JObj [(''id'', cmd_id), (''success'', JBool True),
                           (''data'', JObj [
                              (''bat_mv'', dict_get s ''bat_mv'' JNull),
                              (''up_secs'', dict_get s ''up_secs'' JNull),
                              (''tx_power'', dict_get s ''tx_power'' JNull),
                              (''radio_freq'', dict_get s ''radio_freq'' JNull),
                              (''radio_bw'', dict_get s ''radio_bw'' JNull),
                              (''radio_sf'', dict_get s ''radio_sf'' JNull),
                              (''radio_cr'', dict_get s ''radio_cr'' JNull)])]))"
  using assms
  by (simp add: cmd_get_status_def lib_call_def Let_def split: sum.splits json.splits)

theorem get_status_timeout_is_ten_witness:
  "connected sample_connected \<and> meshcore sample_connected \<noteq> None
   \<and> calls (snd (cmd_get_status (sample_env silent_device) (JStr ''8'')
        [(''public_key'', JStr ''ab''), (''timeout'', JInt 30)] sample_connected))
       = calls sample_connected @ [Req_status_sync (JStr ''ab'') (JInt 10)]
   \<and> reply (sample_env silent_device)
        (calls sample_connected @ [Req_status_sync (JStr ''ab'') (JInt 10)]) = Inr JNull
   \<and> \<not> truthy JNull
   \<and> fst (cmd_get_status (sample_env silent_device) (JStr ''8'')
        [(''public_key'', JStr ''ab''), (''timeout'', JInt 30)] sample_connected)
       = Inr (JObj [(''id'', JStr ''8''), (''success'', JBool False),
                    (''error'', JStr ''No status received'')])
   \<and> reply (sample_env sample_device)
        (calls sample_connected @ [Req_status_sync (JStr ''ab'') (JInt 10)])
       = Inr (JObj [(''bat_mv'', JInt 4100), (''up_secs'', JInt 60)])
   \<and> fst (cmd_get_status (sample_env sample_device) (JStr ''8'')
        [(''public_key'', JStr ''ab''), (''timeout'', JInt 30)] sample_connected)
       = Inr (JObj [(''id'', JStr ''8''), (''success'', JBool True),
               (''data'', JObj [(''bat_mv'', JInt 4100), (''up_secs'', JInt 60),
                  (''tx_power'', JNull), (''radio_freq'', JNull), (''radio_bw'', JNull),
                  (''radio_sf'', JNull), (''radio_cr'', JNull)])])"
proof -
  let ?d = "[(''public_key'', JStr ''ab''), (''timeout'', JInt 30)]"
  have c: "connected sample_connected" and m: "meshcore sample_connected \<noteq> None"
    by (simp_all add: sample_connected_def)
  have k: "dict_get ?d ''public_key'' (JStr '''') = JStr ''ab''"
    by (simp add: dict_get_def)
  have r1: "reply (sample_env silent_device)
        (calls sample_connected @ [Req_status_sync (JStr ''ab'') (JInt 10)]) = Inr JNull"
    by (simp add: sample_env_def silent_device_def)
  have r2: "reply (sample_env sample_device)
        (calls sample_connected @ [Req_status_sync (JStr ''ab'') (JInt 10)])
       = Inr (JObj [(''bat_mv'', JInt 4100), (''up_secs'', JInt 60)])"
    by (simp add: sample_env_def sample_device_def)
  from get_status_timeout_is_ten[OF c m, of "sample_env silent_device" "JStr ''8''" ?d]
       get_status_timeout_is_ten[OF c m, of "sample_env sample_device" "JStr ''8''" ?d]
       c m r1 r2
  show ?thesis
    by (simp add: k dict_get_def)
qed

section \<open>Sending a message\<close>

text \<open>
  Claim C9. For every \<open>send_message\<close> invocation on a connected bridge, exactly one
  library call is made. If the request gives a destination key (a \<open>to\<close> field whose
  value is true, as every non-empty key string is), the call is the direct message to
  that key with the request's text. If the destination is absent (no \<open>to\<close> field, or
  \<open>null\<close>; an empty value is taken as absent too), the call is the channel message on
  channel index 0 with the request's text. In both cases, when the library call
  returns, the response is the success acknowledgement \<open>{sent: true}\<close>.
\<close>

theorem send_message_routing:
  assumes "connected st" and "meshcore st \<noteq> None"
  shows "(\<forall>key. map_of d ''to'' = Some key \<and> truthy key
            \<longrightarrow> calls (snd (cmd_send_message env cmd_id d st))
                  = calls st @ [Send_msg key (dict_get d ''text'' (JStr ''''))])
       \<and> (map_of d ''to'' = None \<or> map_of d ''to'' = Some JNull
            \<or> (\<exists>key. map_of d ''to'' = Some key \<and> \<not> truthy key)
            \<longrightarrow> calls (snd (cmd_send_message env cmd_id d st))
                  = calls st @ [Send_chan_msg (JInt 0) (dict_get d ''text'' (JStr ''''))])
       \<and> (\<forall>v. reply env (calls (snd (cmd_send_message env cmd_id d st))) = Inr v
            \<longrightarrow> fst (cmd_send_message env cmd_id d st)
                  = Inr (JObj [(''id'', cmd_id), (''success'', JBool True),
                               (''data'', JObj [(''sent'', JBool True)])]))"
  using assms
  by (auto simp: cmd_send_message_def lib_call_def dict_get_def Let_def split: sum.splits)

theorem send_message_routing_witness:
  "connected sample_connected \<and> meshcore sample_connected \<noteq> None
   \<and> map_of [(''text'', JStr ''hello''), (''to'', JStr ''ab'')] ''to'' = Some (JStr ''ab'')
   \<and> truthy (JStr ''ab'')
   \<and> calls (snd (cmd_send_message (sample_env silent_device) (JStr ''5'')
        [(''text'', JStr ''hello''), (''to'', JStr ''ab'')] sample_connected))
       = calls sample_connected @ [Send_msg (JStr ''ab'') (JStr ''hello'')]
   \<and> map_of [(''text'', JStr ''hello'')] ''to'' = None
   \<and> calls (snd (cmd_send_message (sample_env silent_device) (JStr ''5'')
        [(''text'', JStr ''hello'')] sample_connected))
       = calls sample_connected @ [Send_chan_msg (JInt 0) (JStr ''hello'')]
   \<and> reply (sample_env silent_device)
        (calls sample_connected @ [Send_chan_msg (JInt 0) (JStr ''hello'')]) = Inr JNull
   \<and> fst (cmd_send_message (sample_env silent_device) (JStr ''5'')
        [(''text'', JStr ''hello'')] sample_connected)
       = Inr (JObj [(''id'', JStr ''5''), (''success'', JBool True),
                    (''data'', JObj [(''sent'', JBool True)])])"
proof -
  let ?d1 = "[(''text'', JStr ''hello''), (''to'', JStr ''ab'')]"
  let ?d2 = "[(''text'', JStr ''hello'')]"
  have c: "connected sample_connected" and m: "meshcore sample_connected \<noteq> None"
    by (simp_all add: sample_connected_def)
  have t1: "map_of ?d1 ''to'' = Some (JStr ''ab'')" "truthy (JStr ''ab'')"
    and t2: "map_of ?d2 ''to'' = None"
    by simp_all
  have r: "\<And>h. reply (sample_env silent_device) h = Inr JNull"
    by (simp add: sample_env_def silent_device_def)
  note s1 = send_message_routing[OF c m, of ?d1 "sample_env silent_device" "JStr ''5''"]
  note s2 = send_message_routing[OF c m, of ?d2 "sample_env silent_device" "JStr ''5''"]
  from s1 t1 have a: "calls (snd (cmd_send_message (sample_env silent_device) (JStr ''5'')
        ?d1 sample_connected))
       = calls sample_connected @ [Send_msg (JStr ''ab'') (dict_get ?d1 ''text'' (JStr ''''))]"
    by blast
  from s2 t2 have b: "calls (snd (cmd_send_message (sample_env silent_device) (JStr ''5'')
        ?d2 sample_connected))
       = calls sample_connected @ [Send_chan_msg (JInt 0) (dict_get ?d2 ''text'' (JStr ''''))]"
    by blast
  from s2 r have e: "fst (cmd_send_message (sample_env silent_device) (JStr ''5'')
        ?d2 sample_connected)
       = Inr (JObj [(''id'', JStr ''5''), (''success'', JBool True),
                    (''data'', JObj [(''sent'', JBool True)])])"
    by blast
  from a b e c m t1 t2 r show ?thesis
    by (simp add: dict_get_def)
qed

end
